theory Spec2Isabelle
  imports Complex_Main
begin

section \<open>Adaptive loudness averaging: the two scripts as functions\<close>

text \<open>
  The repository holds two Python scripts, \<^verbatim>\<open>dyn_adapt2.py\<close> (the simple variant) and
  \<^verbatim>\<open>dyn_adapt4.py\<close> (the refined variant with a maximum-gain clamp and a second,
  half-block-shifted pass). Both cut a decoded buffer into overlapping blocks, scale
  every block towards a target loudness and crossfade each block into the one before.

  Conventions of the embedding.
  \<^item> A buffer is a list of frames, a frame the list of its channel samples; a
    \<^verbatim>\<open>numpy\<close> array is rectangular, so every frame of a buffer has \<^verbatim>\<open>channels\<close> entries.
  \<^item> Samples, loudness values and gains are real numbers: the embedding idealises
    \<^verbatim>\<open>float64\<close> arithmetic (no rounding, no overflow). The one non-finite value that
    the loudness meter does return, \<^verbatim>\<open>-inf\<close> for a block below its gate, is kept as a
    constructor of its own.
  \<^item> The loudness meter (\<^verbatim>\<open>pyloudnorm.Meter.integrated_loudness\<close>) is an external
    library; it is a parameter \<open>meter\<close> of every definition that calls it, a function
    of the block alone. Its own input check (it refuses a block shorter than its gating
    window of 0.4 seconds, which no block of a whole number of seconds is) is not part
    of the model.
  \<^item> The sample rate is what the decoder reports, a natural number; the block division
    of the refined variant is any integer the command line gives.
  \<^item> Every exception the scripts can raise in the modelled part is a value \<open>Inl e\<close>.
\<close>

type_synonym frame = "real list"
type_synonym audio = "frame list"

datatype loudness = NegInf | Fin real

type_synonym meter = "audio \<Rightarrow> loudness"

datatype error =
    ZeroDivisionError
  | IndexError
  | OnlyStereo
  | MonoNotSupported
  | NonFiniteGain

subsection \<open>Python primitives used by the scripts\<close>

text \<open>\<^verbatim>\<open>int(x)\<close> on a float truncates towards zero.\<close>

definition py_int :: "real \<Rightarrow> int" where
  "py_int r = (if 0 \<le> r then \<lfloor>r\<rfloor> else \<lceil>r\<rceil>)"

text \<open>
  \<^verbatim>\<open>int(a / b)\<close> on two integers: true division (which raises on a zero divisor), then
  truncation. The float quotient of two integers below \<open>2^53\<close> truncates to the same
  integer as the exact quotient, which is what the model computes.
\<close>

definition py_int_quot :: "int \<Rightarrow> int \<Rightarrow> error + int" where
  "py_int_quot a b =
     (if b = 0 then Inl ZeroDivisionError else Inr (py_int (real_of_int a / real_of_int b)))"

text \<open>A slice bound is counted from the end when negative and clipped to the length.\<close>

definition py_bound :: "int \<Rightarrow> nat \<Rightarrow> nat" where
  "py_bound k n = (if k < 0 then nat (k + int n) else min (nat k) n)"

text \<open>\<^verbatim>\<open>xs[a:]\<close>, \<^verbatim>\<open>xs[:b]\<close> and \<^verbatim>\<open>xs[a:b]\<close>.\<close>

definition py_slice_from :: "int \<Rightarrow> 'a list \<Rightarrow> 'a list" where
  "py_slice_from a xs = drop (py_bound a (length xs)) xs"

definition py_slice_to :: "int \<Rightarrow> 'a list \<Rightarrow> 'a list" where
  "py_slice_to b xs = take (py_bound b (length xs)) xs"

definition py_slice :: "int \<Rightarrow> int \<Rightarrow> 'a list \<Rightarrow> 'a list" where
  "py_slice a b xs =
     (let lo = py_bound a (length xs); hi = py_bound b (length xs)
      in take (hi - lo) (drop lo xs))"

text \<open>\<^verbatim>\<open>xs[k]\<close>: a negative index counts from the end, anything outside raises.\<close>

definition py_index :: "int \<Rightarrow> nat \<Rightarrow> nat option" where
  "py_index k n =
     (let j = (if k < 0 then k + int n else k)
      in if 0 \<le> j \<and> j < int n then Some (nat j) else None)"

text \<open>\<^verbatim>\<open>range(0, n)\<close>.\<close>

definition py_range :: "int \<Rightarrow> nat list" where
  "py_range n = [0..<nat n]"

text \<open>A \<^verbatim>\<open>for\<close> loop over a list of indices whose body may raise.\<close>

primrec for_loop :: "('i \<Rightarrow> 's \<Rightarrow> error + 's) \<Rightarrow> 'i list \<Rightarrow> 's \<Rightarrow> error + 's" where
  "for_loop body [] s = Inr s"
| "for_loop body (i # idxs) s =
     (case body i s of Inl e \<Rightarrow> Inl e | Inr s' \<Rightarrow> for_loop body idxs s')"

subsection \<open>Command line values (\<^verbatim>\<open>dyn_adapt4.py\<close>, lines 22 to 78)\<close>

definition default_loudness :: int where
  "default_loudness = - 16"

definition default_crossfade :: real where
  "default_crossfade = 6 / 10"

record args =
  arg_division :: int
  arg_loudness :: int
  arg_maxgain :: real
  arg_nophase2 :: bool
  arg_crossfade :: real

definition division_of :: "args \<Rightarrow> int" where
  "division_of a = (if arg_division a mod 2 \<noteq> 0 then arg_division a + 1 else arg_division a)"

definition xfade_of :: "args \<Rightarrow> real" where
  "xfade_of a =
     (if arg_crossfade a \<le> 0 \<or> arg_crossfade a \<ge> 1 then default_crossfade
      else arg_crossfade a)"

definition final_loudness_of :: "args \<Rightarrow> int" where
  "final_loudness_of a = (if arg_loudness a \<ge> 0 then default_loudness else arg_loudness a)"

definition max_gain_of :: "args \<Rightarrow> real" where
  "max_gain_of a = \<bar>arg_maxgain a\<bar>"

subsection \<open>Channel check (\<^verbatim>\<open>dyn_adapt4.py\<close> lines 89 to 103, \<^verbatim>\<open>dyn_adapt2.py\<close> lines 72 to 87)\<close>

text \<open>
  Modelled from the spec: the decoder is the external \<^verbatim>\<open>soundfile.read\<close>; both scripts
  call it with \<^verbatim>\<open>always_2d=True\<close>, under which the array it returns has the
  two-dimensional shape (frames, channels) for every channel count.
\<close>

definition read_shape :: "nat \<Rightarrow> nat \<Rightarrow> nat list" where
  "read_shape frames channels = [frames, channels]"

definition channel_check :: "nat list \<Rightarrow> error + nat" where
  "channel_check shape =
     (if length shape > 1 then
        (let channels = shape ! 1
         in if channels > 2 then Inl OnlyStereo else Inr channels)
      else Inl MonoNotSupported)"

subsection \<open>Block windows (\<^verbatim>\<open>dyn_adapt4.py\<close> lines 108 to 151)\<close>

definition blocksize_of :: "int \<Rightarrow> nat \<Rightarrow> int" where
  "blocksize_of division samplerate = division * int samplerate"

text \<open>
  The product \<^verbatim>\<open>blocksize * xfade\<close> is exact here. In \<^verbatim>\<open>float64\<close> it is rounded before
  \<^verbatim>\<open>int\<close> truncates it, which can give one less where the exact product is an integer
  and the ratio is not a binary fraction (\<^verbatim>\<open>int(48000 * 0.29)\<close> is 13919, the exact
  product 13920). No theorem below depends on which of the two values the fade has.
\<close>

definition fadesize_of :: "int \<Rightarrow> real \<Rightarrow> int" where
  "fadesize_of blocksize xfade = py_int (real_of_int blocksize * xfade)"

definition start_index :: "int \<Rightarrow> int \<Rightarrow> nat \<Rightarrow> int" where
  "start_index blocksize fadesize idx =
     (let start_idx = int idx * blocksize - fadesize
      in if start_idx < 0 then 0 else start_idx)"

definition block_slice :: "int \<Rightarrow> int \<Rightarrow> int \<Rightarrow> nat \<Rightarrow> 'a list \<Rightarrow> 'a list" where
  "block_slice blocksize fadesize block_count idx audio =
     (let start_idx = int idx * blocksize - fadesize;
          stop_idx = start_idx + blocksize + fadesize;
          start_idx = start_index blocksize fadesize idx
      in if int idx = block_count - 1 then py_slice_from start_idx audio
         else py_slice start_idx stop_idx audio)"

subsection \<open>Gain correction (\<^verbatim>\<open>dyn_adapt4.py\<close> lines 160 to 168)\<close>

text \<open>
  Modelled from the spec: \<^verbatim>\<open>pyloudnorm.normalize.loudness\<close> is an external library
  function; the spec gives it as the linear multiplier \<open>10^(gain/20)\<close>, with
  \<open>gain = target - input\<close>, applied to every sample.
\<close>

definition normalize_loudness :: "audio \<Rightarrow> real \<Rightarrow> real \<Rightarrow> audio" where
  "normalize_loudness data input_loudness target_loudness =
     (let delta_loudness = target_loudness - input_loudness;
          gain = 10 powr (delta_loudness / 20)
      in map (map (\<lambda>s. gain * s)) data)"

text \<open>
  The clamp of lines 162 to 166. On \<^verbatim>\<open>-inf\<close> the distance to the target is \<^verbatim>\<open>inf\<close>, which
  exceeds every \<open>max_gain\<close>, and \<^verbatim>\<open>-inf > final_loudness\<close> is false.
\<close>

definition limit_loudness :: "real \<Rightarrow> real \<Rightarrow> loudness \<Rightarrow> real" where
  "limit_loudness final_loudness max_gain l =
     (case l of
        NegInf \<Rightarrow> final_loudness - max_gain
      | Fin m \<Rightarrow>
          if \<bar>final_loudness - m\<bar> > max_gain then
            (if m > final_loudness then final_loudness + max_gain
             else final_loudness - max_gain)
          else m)"

definition correct4 :: "real \<Rightarrow> real \<Rightarrow> loudness \<Rightarrow> audio \<Rightarrow> audio" where
  "correct4 final_loudness max_gain l sub_audio =
     normalize_loudness sub_audio (limit_loudness final_loudness max_gain l) final_loudness"

text \<open>
  The simple variant (\<^verbatim>\<open>dyn_adapt2.py\<close> line 140) passes the measured loudness on as it
  is. On \<^verbatim>\<open>-inf\<close> the gain is \<^verbatim>\<open>inf\<close> and the samples become \<^verbatim>\<open>inf\<close> or \<^verbatim>\<open>nan\<close>, which real
  samples cannot hold: the model stops there with \<open>NonFiniteGain\<close>. This is a limit of
  the embedding and not an exception of the script, which raises nothing, carries the
  non-finite samples on and writes them out; what is proved of the simple variant is
  proved for blocks of finite measured loudness only.
\<close>

definition correct2 :: "real \<Rightarrow> loudness \<Rightarrow> audio \<Rightarrow> error + audio" where
  "correct2 final_loudness l sub_audio =
     (case l of
        NegInf \<Rightarrow> Inl NonFiniteGain
      | Fin m \<Rightarrow> Inr (normalize_loudness sub_audio m final_loudness))"

subsection \<open>Crossfade (\<^verbatim>\<open>dyn_adapt4.py\<close> lines 175 to 181)\<close>

definition blend_frame :: "real \<Rightarrow> real \<Rightarrow> frame \<Rightarrow> frame \<Rightarrow> frame" where
  "blend_frame inv_mult mult p s = map2 (\<lambda>a b. inv_mult * a + mult * b) p s"

definition crossfade_step :: "int \<Rightarrow> int \<Rightarrow> audio \<Rightarrow> nat \<Rightarrow> audio \<Rightarrow> error + audio" where
  "crossfade_step blocksize fadesize sub_audio jdx prev_audio =
     (let mult = real jdx * (1 / real_of_int fadesize);
          inv_mult = 1 - mult
      in case py_index (int jdx + blocksize - fadesize) (length prev_audio) of
           None \<Rightarrow> Inl IndexError
         | Some k \<Rightarrow>
             (case py_index (int jdx) (length sub_audio) of
                None \<Rightarrow> Inl IndexError
              | Some j \<Rightarrow>
                  Inr (prev_audio[k := blend_frame inv_mult mult (prev_audio ! k) (sub_audio ! j)])))"

definition crossfade :: "int \<Rightarrow> int \<Rightarrow> audio \<Rightarrow> audio \<Rightarrow> error + audio" where
  "crossfade blocksize fadesize sub_audio prev_audio =
     for_loop (crossfade_step blocksize fadesize sub_audio) (py_range fadesize) prev_audio"

subsection \<open>One pass over a buffer (\<^verbatim>\<open>dyn_adapt4.py\<close> lines 133 to 198 and 215 to 281)\<close>

text \<open>
  The loop state is the pair \<open>(new_audio, prev_audio)\<close>: the output so far and the held
  previous block.
\<close>

definition phase_step4 ::
  "meter \<Rightarrow> real \<Rightarrow> real \<Rightarrow> int \<Rightarrow> int \<Rightarrow> int \<Rightarrow> audio \<Rightarrow> nat \<Rightarrow> audio \<times> audio
     \<Rightarrow> error + audio \<times> audio" where
  "phase_step4 meter final_loudness max_gain blocksize fadesize block_count audio idx st =
     (case st of (new_audio, prev_audio) \<Rightarrow>
        (let sub_audio = block_slice blocksize fadesize block_count idx audio;
             sub_audio = correct4 final_loudness max_gain (meter sub_audio) sub_audio
         in if idx > 0 then
              (case crossfade blocksize fadesize sub_audio prev_audio of
                 Inl e \<Rightarrow> Inl e
               | Inr prev_audio \<Rightarrow>
                   Inr (new_audio @ prev_audio, py_slice_from fadesize sub_audio))
            else Inr (new_audio, sub_audio)))"

text \<open>
  A pass starts from the \<open>prev_audio\<close> the script holds at that point and returns the
  stitched buffer together with the \<open>prev_audio\<close> it leaves behind.
\<close>

definition phase_pass4 ::
  "meter \<Rightarrow> real \<Rightarrow> real \<Rightarrow> int \<Rightarrow> int \<Rightarrow> audio \<Rightarrow> audio \<Rightarrow> error + audio \<times> audio" where
  "phase_pass4 meter final_loudness max_gain blocksize fadesize prev_audio audio =
     (case py_int_quot (int (length audio)) blocksize of
        Inl e \<Rightarrow> Inl e
      | Inr block_count \<Rightarrow>
          (case for_loop
                  (phase_step4 meter final_loudness max_gain blocksize fadesize block_count audio)
                  (py_range block_count) ([], prev_audio) of
             Inl e \<Rightarrow> Inl e
           | Inr (new_audio, prev_audio) \<Rightarrow> Inr (new_audio @ prev_audio, prev_audio)))"

subsection \<open>The refined variant up to the final normalisation (\<^verbatim>\<open>dyn_adapt4.py\<close> lines 107 to 287)\<close>

definition dyn_adapt4_stitch ::
  "meter \<Rightarrow> real \<Rightarrow> int \<Rightarrow> real \<Rightarrow> real \<Rightarrow> bool \<Rightarrow> nat \<Rightarrow> audio \<Rightarrow> error + audio" where
  "dyn_adapt4_stitch meter final_loudness division xfade max_gain nophase2 samplerate audio =
     (let blocksize = blocksize_of division samplerate;
          fadesize = fadesize_of blocksize xfade
      in case phase_pass4 meter final_loudness max_gain blocksize fadesize [] audio of
           Inl e \<Rightarrow> Inl e
         | Inr (new_audio, prev_audio) \<Rightarrow>
             if \<not> nophase2 then
               (let shift_audio = py_slice_from (py_int (real_of_int blocksize / 2)) new_audio
                in case phase_pass4 meter final_loudness max_gain blocksize fadesize
                          prev_audio shift_audio of
                     Inl e \<Rightarrow> Inl e
                   | Inr (new_shift_audio, prev_audio) \<Rightarrow>
                       Inr (py_slice_to (py_int (real_of_int blocksize / 2)) new_audio
                            @ new_shift_audio))
             else Inr new_audio)"

definition dyn_adapt4 :: "meter \<Rightarrow> args \<Rightarrow> nat \<Rightarrow> audio \<Rightarrow> error + audio" where
  "dyn_adapt4 meter a samplerate audio =
     dyn_adapt4_stitch meter (real_of_int (final_loudness_of a)) (division_of a) (xfade_of a)
       (max_gain_of a) (arg_nophase2 a) samplerate audio"

subsection \<open>The simple variant up to the final normalisation (\<^verbatim>\<open>dyn_adapt2.py\<close> lines 92 to 171)\<close>

definition phase_step2 ::
  "meter \<Rightarrow> real \<Rightarrow> int \<Rightarrow> int \<Rightarrow> int \<Rightarrow> audio \<Rightarrow> nat \<Rightarrow> audio \<times> audio
     \<Rightarrow> error + audio \<times> audio" where
  "phase_step2 meter final_loudness blocksize fadesize division audio idx st =
     (case st of (new_audio, prev_audio) \<Rightarrow>
        (let sub_audio = block_slice blocksize fadesize division idx audio
         in case correct2 final_loudness (meter sub_audio) sub_audio of
              Inl e \<Rightarrow> Inl e
            | Inr sub_audio \<Rightarrow>
                if idx > 0 then
                  (case crossfade blocksize fadesize sub_audio prev_audio of
                     Inl e \<Rightarrow> Inl e
                   | Inr prev_audio \<Rightarrow>
                       Inr (new_audio @ prev_audio, py_slice_from fadesize sub_audio))
                else Inr (new_audio, sub_audio)))"

definition dyn_adapt2_stitch :: "meter \<Rightarrow> real \<Rightarrow> nat \<Rightarrow> nat \<Rightarrow> audio \<Rightarrow> error + audio" where
  "dyn_adapt2_stitch meter final_loudness division samplerate audio =
     (let xfade = 6 / 10;
          samples = int (length audio);
          blocksize = int division * int samplerate
      in case py_int_quot samples blocksize of
           Inl e \<Rightarrow> Inl e
         | Inr division \<Rightarrow>
             (let fadesize = py_int (real_of_int blocksize * xfade)
              in case for_loop (phase_step2 meter final_loudness blocksize fadesize division audio)
                        (py_range division) ([], []) of
                   Inl e \<Rightarrow> Inl e
                 | Inr (new_audio, prev_audio) \<Rightarrow> Inr (new_audio @ prev_audio)))"

subsection \<open>Output name (\<^verbatim>\<open>dyn_adapt4.py\<close> lines 302 to 306, \<^verbatim>\<open>dyn_adapt2.py\<close> lines 183 to 187)\<close>

definition ext_length :: int where
  "ext_length = 4"

definition new_name :: "string \<Rightarrow> string" where
  "new_name filename = py_slice_to (- ext_length) filename @ ''_new.wav''"

subsection \<open>Quantities the claims speak about\<close>

text \<open>
  The gain in dB that \<open>correct4\<close> applies: the \<open>delta_loudness\<close> of
  \<open>normalize_loudness\<close> at the clamped loudness.
\<close>

definition applied_gain4 :: "real \<Rightarrow> real \<Rightarrow> loudness \<Rightarrow> real" where
  "applied_gain4 final_loudness max_gain l =
     final_loudness - limit_loudness final_loudness max_gain l"

text \<open>The condition of line 162, \<^verbatim>\<open>abs(final_loudness - loudness) > max_gain\<close>.\<close>

definition clamp_triggers :: "real \<Rightarrow> real \<Rightarrow> loudness \<Rightarrow> bool" where
  "clamp_triggers final_loudness max_gain l =
     (case l of NegInf \<Rightarrow> True | Fin m \<Rightarrow> \<bar>final_loudness - m\<bar> > max_gain)"

text \<open>The order of loudness values, with \<^verbatim>\<open>-inf\<close> below every finite one.\<close>

fun loudness_le :: "loudness \<Rightarrow> loudness \<Rightarrow> bool" where
  "loudness_le NegInf _ = True"
| "loudness_le (Fin a) NegInf = False"
| "loudness_le (Fin a) (Fin b) = (a \<le> b)"

text \<open>What the meter reports for the blocks of one pass, in the order of the loop.\<close>

definition measured_blocks :: "meter \<Rightarrow> int \<Rightarrow> int \<Rightarrow> audio \<Rightarrow> loudness list" where
  "measured_blocks meter blocksize fadesize audio =
     (case py_int_quot (int (length audio)) blocksize of
        Inl e \<Rightarrow> []
      | Inr block_count \<Rightarrow>
          map (\<lambda>idx. meter (block_slice blocksize fadesize block_count idx audio))
            (py_range block_count))"

subsection \<open>A stand-in meter for the worked examples\<close>

text \<open>
  A deterministic meter that reads the peak of a block in steps of 20 dB and reports
  \<^verbatim>\<open>-inf\<close> below \<open>1/1000\<close> of full scale, as a gated meter does for a block under its
  gate. It is used only to run the definitions on concrete buffers.
\<close>

definition peak :: "audio \<Rightarrow> real" where
  "peak a = fold (\<lambda>f m. fold (\<lambda>s m. max \<bar>s\<bar> m) f m) a 0"

definition step_meter :: meter where
  "step_meter a =
     (let p = peak a
      in if p \<ge> 1 then Fin 0
         else if p \<ge> 1 / 10 then Fin (- 20)
         else if p \<ge> 1 / 100 then Fin (- 40)
         else if p \<ge> 1 / 1000 then Fin (- 60)
         else NegInf)"

section \<open>Facts about the Python primitives\<close>

lemma py_int_quot_pos:
  assumes "0 \<le> a" "0 < b"
  shows "py_int_quot a b = Inr (a div b)"
proof -
  have "0 \<le> real_of_int a / real_of_int b" using assms by simp
  moreover have "\<lfloor>real_of_int a / real_of_int b\<rfloor> = a div b"
    by (simp add: floor_divide_of_int_eq)
  ultimately show ?thesis using assms by (simp add: py_int_quot_def py_int_def)
qed

lemma py_bound_nonneg: "0 \<le> k \<Longrightarrow> py_bound k n = min (nat k) n"
  by (simp add: py_bound_def)

lemma py_slice_from_nonneg: "0 \<le> a \<Longrightarrow> py_slice_from a xs = drop (nat a) xs"
  by (simp add: py_slice_from_def py_bound_nonneg min_def)

lemma py_slice_to_nonneg: "0 \<le> b \<Longrightarrow> py_slice_to b xs = take (nat b) xs"
  by (simp add: py_slice_to_def py_bound_nonneg min_def)

lemma py_slice_nonneg:
  assumes "0 \<le> a" "0 \<le> b"
  shows "py_slice a b xs = take (nat b - nat a) (drop (nat a) xs)"
proof (cases "nat a \<le> length xs")
  case True
  then show ?thesis using assms
    by (auto simp: py_slice_def py_bound_nonneg min_def Let_def)
next
  case False
  then show ?thesis using assms
    by (simp add: py_slice_def py_bound_nonneg min_def Let_def)
qed

lemma py_index_in_range: "0 \<le> k \<Longrightarrow> k < int n \<Longrightarrow> py_index k n = Some (nat k)"
  by (simp add: py_index_def)

lemma for_loop_append:
  "for_loop body (xs @ ys) s =
     (case for_loop body xs s of Inl e \<Rightarrow> Inl e | Inr s' \<Rightarrow> for_loop body ys s')"
  by (induction xs arbitrary: s) (auto split: sum.splits)

lemma for_loop_cong_on:
  "(\<And>i s. i \<in> set idxs \<Longrightarrow> f i s = g i s) \<Longrightarrow> for_loop f idxs s = for_loop g idxs s"
  by (induction idxs arbitrary: s) (auto split: sum.splits)

lemma for_loop_upt_rule:
  assumes init: "I a s"
    and step: "\<And>i t. a \<le> i \<Longrightarrow> i < b \<Longrightarrow> I i t \<Longrightarrow> \<exists>t'. body i t = Inr t' \<and> I (Suc i) t'"
    and le: "a \<le> b"
  shows "\<exists>t. for_loop body [a..<b] s = Inr t \<and> I b t"
  using le step
proof (induction b rule: dec_induct)
  case base
  then show ?case using init by simp
next
  case (step n)
  from step.IH step.prems obtain t where t: "for_loop body [a..<n] s = Inr t" "I n t"
    by (meson less_Suc_eq)
  from step.prems[of n t] step.hyps t obtain t' where "body n t = Inr t'" "I (Suc n) t'"
    by auto
  with t step.hyps show ?case by (simp add: for_loop_append)
qed


section \<open>The crossfade loop\<close>

lemma crossfade_result:
  assumes fs: "0 \<le> fadesize" "fadesize \<le> blocksize"
    and lp: "nat blocksize \<le> length prev_audio"
    and ls: "nat fadesize \<le> length sub_audio"
  shows "\<exists>blended. crossfade blocksize fadesize sub_audio prev_audio = Inr blended
           \<and> length blended = length prev_audio
           \<and> (\<forall>j < nat fadesize.
                 blended ! (nat (blocksize - fadesize) + j) =
                   blend_frame (1 - real j * (1 / real_of_int fadesize))
                     (real j * (1 / real_of_int fadesize))
                     (prev_audio ! (nat (blocksize - fadesize) + j)) (sub_audio ! j))
           \<and> (\<forall>k < length prev_audio.
                 k < nat (blocksize - fadesize) \<or> nat blocksize \<le> k \<longrightarrow>
                   blended ! k = prev_audio ! k)"
proof -
  define off where "off = nat (blocksize - fadesize)"
  define I where "I = (\<lambda>n (p :: audio). length p = length prev_audio
     \<and> (\<forall>j < n. p ! (off + j) =
            blend_frame (1 - real j * (1 / real_of_int fadesize))
              (real j * (1 / real_of_int fadesize)) (prev_audio ! (off + j)) (sub_audio ! j))
     \<and> (\<forall>k < length prev_audio. k < off \<or> off + n \<le> k \<longrightarrow> p ! k = prev_audio ! k))"
  have off_fs: "off + nat fadesize = nat blocksize"
    using fs by (simp add: off_def)
  have init: "I 0 prev_audio" by (simp add: I_def)
  have step: "\<exists>t'. crossfade_step blocksize fadesize sub_audio i t = Inr t' \<and> I (Suc i) t'"
    if "0 \<le> i" "i < nat fadesize" "I i t" for i t
  proof -
    have len: "length t = length prev_audio" using that(3) by (simp add: I_def)
    have k_lt: "off + i < length prev_audio" using that(2) off_fs lp by linarith
    have idx: "int i + blocksize - fadesize = int (off + i)"
      using fs by (simp add: off_def)
    have pk: "py_index (int i + blocksize - fadesize) (length t) = Some (off + i)"
      unfolding idx using k_lt len by (simp add: py_index_in_range)
    have pj: "py_index (int i) (length sub_audio) = Some i"
      using that(2) ls by (simp add: py_index_in_range)
    have old: "t ! (off + i) = prev_audio ! (off + i)"
      using that(3) k_lt by (simp add: I_def)
    let ?t' = "t[off + i := blend_frame (1 - real i * (1 / real_of_int fadesize))
        (real i * (1 / real_of_int fadesize)) (prev_audio ! (off + i)) (sub_audio ! i)]"
    have res: "crossfade_step blocksize fadesize sub_audio i t = Inr ?t'"
      by (simp add: crossfade_step_def Let_def pk pj old)
    have "I (Suc i) ?t'"
      unfolding I_def
    proof (intro conjI allI impI)
      show "length ?t' = length prev_audio" using len by simp
    next
      fix j assume "j < Suc i"
      then show "?t' ! (off + j) =
            blend_frame (1 - real j * (1 / real_of_int fadesize))
              (real j * (1 / real_of_int fadesize)) (prev_audio ! (off + j)) (sub_audio ! j)"
        using that(3) k_lt len by (cases "j = i") (auto simp: I_def nth_list_update)
    next
      fix k assume "k < length prev_audio" "k < off \<or> off + Suc i \<le> k"
      then show "?t' ! k = prev_audio ! k"
        using that(3) by (auto simp: I_def nth_list_update)
    qed
    with res show ?thesis by blast
  qed
  from for_loop_upt_rule[where I = I and body = "crossfade_step blocksize fadesize sub_audio"
      and a = 0 and b = "nat fadesize" and s = prev_audio, OF init step]
  obtain blended where b: "crossfade blocksize fadesize sub_audio prev_audio = Inr blended"
    "I (nat fadesize) blended"
    by (auto simp: crossfade_def py_range_def)
  show ?thesis
    using b off_fs by (auto simp: I_def off_def)
qed

lemma blend_frame_nth:
  assumes "ch < length p" "ch < length s"
  shows "blend_frame inv_mult mult p s ! ch = inv_mult * p ! ch + mult * s ! ch"
  using assms by (simp add: blend_frame_def)

lemma blend_between:
  fixes a b w :: real
  assumes "0 \<le> w" "w \<le> 1"
  shows "min a b \<le> (1 - w) * a + w * b \<and> (1 - w) * a + w * b \<le> max a b"
proof (cases "a \<le> b")
  case True
  have "(1 - w) * a + w * a \<le> (1 - w) * a + w * b"
    using True assms(1) by (simp add: mult_left_mono)
  moreover have "(1 - w) * a + w * b \<le> (1 - w) * b + w * b"
    using True assms(2) by (simp add: mult_left_mono)
  ultimately show ?thesis using True by (simp add: algebra_simps min_def max_def)
next
  case False
  then have ba: "b \<le> a" by simp
  have "(1 - w) * a + w * b \<le> (1 - w) * a + w * a"
    using ba assms(1) by (simp add: mult_left_mono)
  moreover have "(1 - w) * b + w * b \<le> (1 - w) * a + w * b"
    using ba assms(2) by (simp add: mult_left_mono)
  ultimately show ?thesis using False by (simp add: algebra_simps min_def max_def)
qed

section \<open>The block loop keeps every sample of a buffer that holds a whole block\<close>

lemma start_index_nat:
  assumes "F \<le> B"
  shows "start_index (int B) (int F) idx = int (idx * B - F)"
proof (cases idx)
  case 0
  then show ?thesis by (simp add: start_index_def)
next
  case (Suc n)
  then have "F \<le> idx * B" using assms by (simp add: trans_le_add1)
  then have "int idx * int B - int F = int (idx * B - F)"
    by (simp add: of_nat_diff)
  then show ?thesis by (simp add: start_index_def Let_def)
qed

lemma block_slice_nat:
  assumes "F \<le> B"
  shows "block_slice (int B) (int F) cnt idx audio =
     (if int idx = cnt - 1 then drop (idx * B - F) audio
      else take (if idx = 0 then B else B + F) (drop (idx * B - F) audio))"
proof -
  have stop: "int idx * int B - int F + int B + int F = int (Suc idx * B)"
    by (simp add: algebra_simps)
  have w: "Suc idx * B - (idx * B - F) = (if idx = 0 then B else B + F)"
  proof (cases idx)
    case 0
    then show ?thesis by simp
  next
    case (Suc n)
    then have "F \<le> idx * B" using assms by (simp add: trans_le_add1)
    then show ?thesis using Suc by simp
  qed
  show ?thesis
    unfolding block_slice_def Let_def stop start_index_nat[OF assms]
    by (simp only: py_slice_from_nonneg py_slice_nonneg of_nat_0_le_iff nat_int w)
qed


lemma length_normalize_loudness [simp]:
  "length (normalize_loudness data l t) = length data"
  by (simp add: normalize_loudness_def Let_def)

lemma length_correct4 [simp]: "length (correct4 t g l sub_audio) = length sub_audio"
  by (simp add: correct4_def)

lemma phase_step4_first:
  "phase_step4 meter t g bs fs cnt audio 0 (new_audio, prev_audio) =
     Inr (new_audio, correct4 t g (meter (block_slice bs fs cnt 0 audio))
                       (block_slice bs fs cnt 0 audio))"
  by (simp add: phase_step4_def Let_def)

lemma phase_step4_later:
  assumes "F \<le> B" "0 < idx" "length prev_audio = B"
    and "F \<le> length (block_slice (int B) (int F) cnt idx audio)"
  shows "\<exists>blended. phase_step4 meter t g (int B) (int F) cnt audio idx (new_audio, prev_audio) =
            Inr (new_audio @ blended,
                 drop F (correct4 t g (meter (block_slice (int B) (int F) cnt idx audio))
                           (block_slice (int B) (int F) cnt idx audio)))
          \<and> length blended = B"
proof -
  let ?sub = "correct4 t g (meter (block_slice (int B) (int F) cnt idx audio))
                (block_slice (int B) (int F) cnt idx audio)"
  from crossfade_result[of "int F" "int B" prev_audio ?sub] assms
  obtain blended where "crossfade (int B) (int F) ?sub prev_audio = Inr blended"
    "length blended = length prev_audio"
    by auto
  then show ?thesis using assms(2,3)
    by (simp add: phase_step4_def Let_def py_slice_from_nonneg)
qed

lemma phase_loop4_length:
  assumes B: "0 < B" and FB: "F \<le> B" and N: "B \<le> length audio"
  shows "\<exists>new_audio held.
           for_loop (phase_step4 meter t g (int B) (int F) (int (length audio div B)) audio)
             [0..<length audio div B] ([], prev0) = Inr (new_audio, held)
         \<and> length new_audio + length held = length audio"
proof -
  define N where "N = length audio"
  define C where "C = N div B"
  have C1: "1 \<le> C" using B N by (simp add: C_def N_def div_greater_zero_iff Suc_leI)
  have CB: "C * B \<le> N" by (simp add: C_def)
  define I where "I = (\<lambda>i (st :: audio \<times> audio).
     (i = 0 \<and> fst st = []) \<or>
     (0 < i \<and> length (fst st) = (i - 1) * B
            \<and> length (snd st) = (if i = C then N - (i - 1) * B else B)))"
  let ?body = "phase_step4 meter t g (int B) (int F) (int C) audio"
  have init: "I 0 ([], prev0)" by (simp add: I_def)
  have step: "\<exists>t'. ?body i st = Inr t' \<and> I (Suc i) t'"
    if "0 \<le> i" "i < C" "I i st" for i st
  proof (cases "i = 0")
    case True
    obtain new_audio prev_audio where st: "st = (new_audio, prev_audio)" by (cases st)
    have new: "new_audio = []" using that(3) True st by (simp add: I_def)
    have len: "length (block_slice (int B) (int F) (int C) 0 audio) = (if C = 1 then N else B)"
      using N C1 by (auto simp: block_slice_nat[OF FB] N_def)
    show ?thesis
      unfolding st True phase_step4_first using new len
      by (simp add: I_def)
  next
    case False
    then have ipos: "0 < i" by simp
    obtain new_audio prev_audio where st: "st = (new_audio, prev_audio)" by (cases st)
    have lnew: "length new_audio = (i - 1) * B" and lprev: "length prev_audio = B"
      using that(2,3) ipos st by (auto simp: I_def)
    have "Suc i * B \<le> C * B" using that(2) by (intro mult_le_mono1) simp
    then have iB: "i * B + B \<le> N" using CB by simp
    have Fi: "F \<le> i * B" using FB ipos
      by (metis One_nat_def Suc_leI le_trans mult.commute mult_le_mono2 nat_mult_1_right)
    have lsub: "length (block_slice (int B) (int F) (int C) i audio) =
        (if Suc i = C then N - i * B + F else B + F)"
    proof (cases "Suc i = C")
      case True
      then have "int i = int C - 1" by simp
      then show ?thesis using True Fi iB
        by (simp add: block_slice_nat[OF FB] N_def)
    next
      case False
      then have lt: "Suc (Suc i) \<le> C" using that(2) by simp
      have "Suc (Suc i) * B \<le> C * B" using lt by (intro mult_le_mono1)
      then have "i * B + B + B \<le> N" using CB by simp
      moreover have "int i \<noteq> int C - 1" using False by auto
      ultimately show ?thesis using False Fi ipos
        by (simp add: block_slice_nat[OF FB] N_def)
    qed
    then have "F \<le> length (block_slice (int B) (int F) (int C) i audio)"
      by (simp split: if_splits)
    from phase_step4_later[OF FB ipos lprev this, of meter t g new_audio]
    obtain blended where bl:
      "?body i (new_audio, prev_audio) =
         Inr (new_audio @ blended,
              drop F (correct4 t g (meter (block_slice (int B) (int F) (int C) i audio))
                        (block_slice (int B) (int F) (int C) i audio)))"
      "length blended = B"
      by blast
    have "(i - 1) * B + B = i * B" using ipos
      by (metis Suc_diff_1 mult_Suc add.commute)
    then show ?thesis
      unfolding st bl(1) using bl(2) lnew lsub iB
      by (auto simp: I_def)
  qed
  from for_loop_upt_rule[where I = I and body = ?body and a = 0 and b = C and s = "([], prev0)",
      OF init step]
  obtain st where st: "for_loop ?body [0..<C] ([], prev0) = Inr st" "I C st"
    by auto
  obtain new_audio held where nh: "st = (new_audio, held)" by (cases st)
  have "(C - 1) * B \<le> N" using CB
    by (meson diff_le_self le_trans mult_le_mono1)
  then have "length new_audio + length held = N"
    using st(2) C1 nh by (auto simp: I_def)
  with st(1) nh show ?thesis by (auto simp: C_def N_def)
qed

lemma phase_pass4_length:
  assumes "0 < blocksize" "0 \<le> fadesize" "fadesize \<le> blocksize"
    and "nat blocksize \<le> length audio"
  shows "\<exists>new_audio held.
           phase_pass4 meter t g blocksize fadesize prev0 audio = Inr (new_audio, held)
         \<and> length new_audio = length audio"
proof -
  define B where "B = nat blocksize"
  define F where "F = nat fadesize"
  have bs: "blocksize = int B" and fs: "fadesize = int F"
    using assms by (simp_all add: B_def F_def)
  have q: "py_int_quot (int (length audio)) (int B) = Inr (int (length audio div B))"
    using assms(1) by (simp add: py_int_quot_pos bs zdiv_int)
  have B0: "0 < B" and FB: "F \<le> B" and BN: "B \<le> length audio"
    using assms by (simp_all add: B_def F_def)
  from phase_loop4_length[OF B0 FB BN, of meter t g prev0]
  obtain new_audio held where
    "for_loop (phase_step4 meter t g (int B) (int F) (int (length audio div B)) audio)
       [0..<length audio div B] ([], prev0) = Inr (new_audio, held)"
    "length new_audio + length held = length audio"
    by blast
  then show ?thesis
    unfolding bs fs phase_pass4_def q by (simp add: py_range_def)
qed

section \<open>Channel check\<close>

text \<open>
  Claim C2: an input with one channel, or with more than two, is reported and no output
  is written; only two-channel input goes on. The scripts print
  \<^verbatim>\<open>Mono files are not supported\<close> in the \<^verbatim>\<open>else\<close> branch of
  \<^verbatim>\<open>len(audio.shape) > 1\<close>, but they read the file with \<^verbatim>\<open>always_2d=True\<close>, so the shape
  always has two entries and that branch is never taken: a mono file passes the check
  with \<open>channels = 1\<close> and is processed. Only more than two channels are refused.
\<close>

theorem mono_passes_channel_check:
  "channel_check (read_shape frames 1) = Inr 1
   \<and> channel_check (read_shape frames 2) = Inr 2
   \<and> channel_check (read_shape frames 3) = Inl OnlyStereo"
  by (simp add: channel_check_def read_shape_def)

section \<open>Gain correction\<close>

lemma correct4_applied_gain:
  "correct4 t g l block = map (map (\<lambda>s. 10 powr (applied_gain4 t g l / 20) * s)) block"
  by (simp add: correct4_def normalize_loudness_def applied_gain4_def Let_def)

text \<open>
  Claim C5: for a block of finite measured loudness \<open>m\<close>, target \<open>t\<close> and maximum gain
  \<open>g \<ge> 0\<close>, the applied gain in dB is \<open>t - m\<close> when \<open>\<bar>t - m\<bar> \<le> g\<close> and
  \<open>sgn (t - m) * g\<close> otherwise, and every sample of the block is multiplied by the one
  factor \<open>10 powr (gain / 20)\<close>.
\<close>

theorem gain_clamp:
  assumes "0 \<le> g"
  shows "applied_gain4 t g (Fin m) = (if \<bar>t - m\<bar> \<le> g then t - m else sgn (t - m) * g)
       \<and> correct4 t g (Fin m) block =
           map (map (\<lambda>s. 10 powr (applied_gain4 t g (Fin m) / 20) * s)) block"
proof
  show "applied_gain4 t g (Fin m) = (if \<bar>t - m\<bar> \<le> g then t - m else sgn (t - m) * g)"
    using assms by (auto simp: applied_gain4_def limit_loudness_def sgn_if)
  show "correct4 t g (Fin m) block =
           map (map (\<lambda>s. 10 powr (applied_gain4 t g (Fin m) / 20) * s)) block"
    by (rule correct4_applied_gain)
qed

text \<open>
  Claim C5 at target -16 and maximum gain 20: a block at -60 is raised by the full 20 dB
  (factor 10), a block at +10 is lowered by 20 dB, a block at -30 gets its 14 dB.
\<close>

theorem gain_clamp_witness:
  "(0::real) \<le> 20
   \<and> applied_gain4 (- 16) 20 (Fin (- 60)) = 20
   \<and> applied_gain4 (- 16) 20 (Fin 10) = - 20
   \<and> applied_gain4 (- 16) 20 (Fin (- 30)) = 14
   \<and> correct4 (- 16) 20 (Fin (- 60)) [[1 / 1000, - 1 / 1000]] = [[1 / 100, - 1 / 100]]"
  using gain_clamp[of 20 "- 16" "- 60" "[[1 / 1000, - 1 / 1000]]"]
    gain_clamp[of 20 "- 16" 10 "[]"] gain_clamp[of 20 "- 16" "- 30" "[]"]
  by simp

text \<open>
  Claim C6, as the refined variant has it: a block whose measured loudness is \<^verbatim>\<open>-inf\<close> is
  not left alone. The clamp takes the infinite gap for a gap above \<open>max_gain\<close> and the
  block gets the full positive gain: every sample is multiplied by
  \<open>10 powr (max_gain / 20)\<close>.
\<close>

theorem silence_gets_max_gain:
  "applied_gain4 t g NegInf = g
   \<and> correct4 t g NegInf block = map (map (\<lambda>s. 10 powr (g / 20) * s)) block"
  by (simp add: correct4_applied_gain) (simp add: applied_gain4_def limit_loudness_def)

text \<open>
  Claim C6 as stated (a block measuring \<^verbatim>\<open>-inf\<close> is left unmodified) fails: a block at
  \<open>1/10000\<close> of full scale measures \<^verbatim>\<open>-inf\<close> and comes out ten times larger at maximum
  gain 20.
\<close>

theorem silence_modified_counterexample:
  "step_meter [[1 / 10000, - 1 / 10000]] = NegInf
   \<and> correct4 (- 16) 20 (step_meter [[1 / 10000, - 1 / 10000]]) [[1 / 10000, - 1 / 10000]]
       = [[1 / 1000, - 1 / 1000]]
   \<and> correct4 (- 16) 20 (step_meter [[1 / 10000, - 1 / 10000]]) [[1 / 10000, - 1 / 10000]]
       \<noteq> [[1 / 10000, - 1 / 10000]]"
  by (simp add: step_meter_def peak_def correct4_def limit_loudness_def normalize_loudness_def
      Let_def)

text \<open>
  Claim C8: for a fixed target and maximum gain \<open>g \<ge> 0\<close>, the applied gain in dB does
  not increase with the measured loudness: of two blocks, the louder one never gets the
  larger gain.
\<close>

theorem gain_monotone:
  assumes "0 \<le> g" "loudness_le l1 l2"
  shows "applied_gain4 t g l2 \<le> applied_gain4 t g l1"
proof (cases l1)
  case NegInf
  then show ?thesis using assms(1)
    by (cases l2) (auto simp: applied_gain4_def limit_loudness_def)
next
  case (Fin a)
  with assms(2) obtain b where l2: "l2 = Fin b" and ab: "a \<le> b"
    by (cases l2) auto
  show ?thesis using assms(1) ab unfolding Fin l2
    by (auto simp: applied_gain4_def limit_loudness_def)
qed

text \<open>
  Claim C8 at target -16 and maximum gain 2: the block at -17 gets 1 dB, the quieter
  block at -30 gets the clamped 2 dB.
\<close>

theorem gain_monotone_witness:
  "(0::real) \<le> 2 \<and> loudness_le (Fin (- 30)) (Fin (- 17))
   \<and> applied_gain4 (- 16) 2 (Fin (- 17)) \<le> applied_gain4 (- 16) 2 (Fin (- 30))
   \<and> applied_gain4 (- 16) 2 (Fin (- 17)) = 1 \<and> applied_gain4 (- 16) 2 (Fin (- 30)) = 2"
  using gain_monotone[of 2 "Fin (- 30)" "Fin (- 17)" "- 16"]
  by (simp add: applied_gain4_def limit_loudness_def)

section \<open>Output name\<close>

text \<open>
  Claim C9: the output name is the input name with its extension replaced by
  \<^verbatim>\<open>_new.wav\<close>, whatever the length of the extension. The scripts announce
  \<^verbatim>\<open>Remove extension from filename\<close> and call the constant \<^verbatim>\<open>ext_length\<close>, but they cut a
  fixed four characters. On an extension of five characters the dot stays behind:
  \<^verbatim>\<open>song.flac\<close> becomes \<^verbatim>\<open>song._new.wav\<close>, not \<^verbatim>\<open>song_new.wav\<close>.
\<close>

theorem new_name_long_extension_leaves_dot:
  "new_name ''song.flac'' = ''song._new.wav'' \<and> new_name ''song.flac'' \<noteq> ''song_new.wav''"
  by (simp add: new_name_def py_slice_to_def py_bound_def ext_length_def)

text \<open>
  Where the extension, dot included, has four characters, the name comes out as
  announced: \<^verbatim>\<open>song.wav\<close> becomes \<^verbatim>\<open>song_new.wav\<close>.
\<close>

lemma new_name_strips_four:
  assumes "length ext = 4"
  shows "new_name (stem @ ext) = stem @ ''_new.wav''"
  using assms by (simp add: new_name_def py_slice_to_def py_bound_def ext_length_def)

lemma new_name_wav: "new_name ''song.wav'' = ''song_new.wav''"
  using new_name_strips_four[of "''.wav''" "''song''"] by simp

section \<open>Block plan\<close>

lemma fadesize_of_bounds:
  assumes "0 < blocksize" "0 \<le> xfade" "xfade \<le> 1"
  shows "0 \<le> fadesize_of blocksize xfade \<and> fadesize_of blocksize xfade \<le> blocksize"
proof -
  have nn: "0 \<le> real_of_int blocksize * xfade" using assms by simp
  have "real_of_int blocksize * xfade \<le> real_of_int blocksize * 1"
    using assms by (intro mult_left_mono) simp_all
  then have "\<lfloor>real_of_int blocksize * xfade\<rfloor> \<le> blocksize"
    by (simp add: floor_le_iff)
  moreover have "0 \<le> \<lfloor>real_of_int blocksize * xfade\<rfloor>" using nn by simp
  ultimately show ?thesis using nn by (simp add: fadesize_of_def py_int_def)
qed

text \<open>
  Claim C3, as the code has it: for a positive block duration and sample rate, the loop
  runs over exactly \<open>N div blocksize\<close> windows (the quotient rounded down, not up), with
  \<open>blocksize = division * samplerate\<close>; and when the buffer holds at least one whole
  block, the last window starts at its start index and ends at \<open>N\<close> exactly, so the
  remainder is part of the last window.
\<close>

theorem block_plan_floor:
  assumes "0 < division" "0 < samplerate" "0 \<le> xfade"
  shows "py_int_quot (int (length audio)) (blocksize_of division samplerate) =
           Inr (int (length audio div nat (blocksize_of division samplerate)))
       \<and> length (py_range (int (length audio div nat (blocksize_of division samplerate)))) =
           length audio div nat (blocksize_of division samplerate)
       \<and> (nat (blocksize_of division samplerate) \<le> length audio \<longrightarrow>
            nat (start_index (blocksize_of division samplerate)
                   (fadesize_of (blocksize_of division samplerate) xfade)
                   (length audio div nat (blocksize_of division samplerate) - 1))
            + length (block_slice (blocksize_of division samplerate)
                   (fadesize_of (blocksize_of division samplerate) xfade)
                   (int (length audio div nat (blocksize_of division samplerate)))
                   (length audio div nat (blocksize_of division samplerate) - 1) audio)
            = length audio)"
proof -
  define bs where "bs = blocksize_of division samplerate"
  define fs where "fs = fadesize_of bs xfade"
  define B where "B = nat bs"
  define C where "C = length audio div B"
  have bs0: "0 < bs" using assms by (simp add: bs_def blocksize_of_def)
  have bsB: "bs = int B" using bs0 by (simp add: B_def)
  have fs0: "0 \<le> fs"
  proof -
    have "0 \<le> real_of_int bs * xfade" using bs0 assms(3) by simp
    then show ?thesis by (simp add: fs_def fadesize_of_def py_int_def)
  qed
  have q: "py_int_quot (int (length audio)) bs = Inr (int C)"
    using bs0 by (simp add: py_int_quot_pos bsB C_def zdiv_int)
  have r: "length (py_range (int C)) = C" by (simp add: py_range_def)
  have last: "nat (start_index bs fs (C - 1)) + length (block_slice bs fs (int C) (C - 1) audio)
      = length audio" if "B \<le> length audio"
  proof -
    have C1: "1 \<le> C" using that bs0 by (simp add: C_def B_def div_greater_zero_iff Suc_leI)
    have "(C - 1) * B \<le> C * B" by (simp add: mult_le_mono1)
    also have "C * B \<le> length audio" by (simp add: C_def)
    finally have le: "(C - 1) * B \<le> length audio" .
    have s0: "0 \<le> start_index bs fs (C - 1)" by (simp add: start_index_def Let_def)
    have "start_index bs fs (C - 1) \<le> int (C - 1) * bs"
      using fs0 bs0 by (simp add: start_index_def Let_def)
    also have "\<dots> = int ((C - 1) * B)" by (simp add: bsB)
    finally have "nat (start_index bs fs (C - 1)) \<le> (C - 1) * B" by linarith
    with le have sl: "nat (start_index bs fs (C - 1)) \<le> length audio" by simp
    have "int (C - 1) = int C - 1" using C1 by simp
    then have "block_slice bs fs (int C) (C - 1) audio =
        drop (nat (start_index bs fs (C - 1))) audio"
      using s0 by (simp add: block_slice_def Let_def py_slice_from_nonneg)
    then show ?thesis using sl by simp
  qed
  show ?thesis
    using q r last unfolding C_def B_def fs_def bs_def by blast
qed

text \<open>
  Claim C3 on five frames with a block of two: two windows, the second one running from
  its start index to frame 5.
\<close>

theorem block_plan_floor_witness:
  "(0::int) < 2 \<and> (0::nat) < 1 \<and> (0::real) \<le> 6 / 10
   \<and> py_int_quot (int (length [[1 / 2 :: real], [1 / 3], [1 / 4], [1 / 5], [1 / 6]]))
         (blocksize_of 2 1) = Inr 2
   \<and> length (py_range 2) = 2
   \<and> nat (start_index (blocksize_of 2 1) (fadesize_of (blocksize_of 2 1) (6 / 10)) 1)
        + length (block_slice (blocksize_of 2 1) (fadesize_of (blocksize_of 2 1) (6 / 10)) 2 1
                    [[1 / 2 :: real], [1 / 3], [1 / 4], [1 / 5], [1 / 6]]) = 5"
  using block_plan_floor[of 2 1 "6 / 10" "[[1 / 2 :: real], [1 / 3], [1 / 4], [1 / 5], [1 / 6]]"]
  by (simp add: blocksize_of_def)

text \<open>
  Claim C3 as stated (the number of windows is the quotient rounded up) fails: 24000
  frames at 8000 Hz with blocks of 2 seconds give one window, and the quotient rounded
  up is 2.
\<close>

theorem block_count_not_ceiling_counterexample:
  "py_int_quot 24000 (blocksize_of 2 8000) = Inr 1
   \<and> length (py_range 1) = 1
   \<and> \<lceil>(24000::real) / real_of_int (blocksize_of 2 8000)\<rceil> = 2"
  by (simp add: py_int_quot_def py_int_def blocksize_of_def py_range_def)

section \<open>Length of a pass\<close>

text \<open>
  Claim C4: the stitched output of one pass has as many frames as its input. The loop
  keeps the remainder by taking the last block to the end of the buffer
  (\<open>phase_pass4_length\<close> above: every frame survives once the buffer holds a whole
  block), but a buffer shorter than one block gives a block count of 0, the loop body
  never runs, and the output is empty: three frames at 8000 Hz with blocks of 2 seconds
  come out as no frames at all, in both variants.
\<close>

theorem short_buffer_dropped:
  "phase_pass4 meter t g (blocksize_of 2 8000) (fadesize_of (blocksize_of 2 8000) (6 / 10)) []
      [[1 / 2, 1 / 2], [1 / 4, 1 / 4], [1 / 8, 1 / 8]] = Inr ([], [])
   \<and> dyn_adapt4_stitch meter t 2 (6 / 10) g True 8000
      [[1 / 2, 1 / 2], [1 / 4, 1 / 4], [1 / 8, 1 / 8]] = Inr []
   \<and> dyn_adapt2_stitch meter t 2 8000
      [[1 / 2, 1 / 2], [1 / 4, 1 / 4], [1 / 8, 1 / 8]] = Inr []"
  by (simp add: dyn_adapt4_stitch_def dyn_adapt2_stitch_def phase_pass4_def py_int_quot_def
      py_int_def blocksize_of_def py_range_def Let_def)

text \<open>
  With a block count of 0 the pass returns whatever \<open>prev_audio\<close> held before: in the
  second pass of the refined variant that is the last block of the first pass.
\<close>

lemma stale_prev_audio_appended:
  "phase_pass4 meter t g (blocksize_of 2 8000) (fadesize_of (blocksize_of 2 8000) (6 / 10))
      [[7 / 10, 7 / 10]] [[1 / 2, 1 / 2], [1 / 4, 1 / 4], [1 / 8, 1 / 8]]
     = Inr ([[7 / 10, 7 / 10]], [[7 / 10, 7 / 10]])"
  by (simp add: phase_pass4_def py_int_quot_def py_int_def blocksize_of_def py_range_def)

section \<open>The two passes of the refined variant\<close>

lemma py_int_half: "0 \<le> b \<Longrightarrow> py_int (real_of_int b / 2) = b div 2"
  using floor_divide_of_int_eq[of b 2, where ?'a = real] by (simp add: py_int_def)

lemma phase_pass4_prev_irrelevant:
  assumes "0 < blocksize" "nat blocksize \<le> length audio"
  shows "phase_pass4 meter t g blocksize fadesize prev0 audio =
         phase_pass4 meter t g blocksize fadesize [] audio"
proof -
  define C where "C = length audio div nat blocksize"
  have q: "py_int_quot (int (length audio)) blocksize = Inr (int C)"
    using assms(1) py_int_quot_pos[of "int (length audio)" blocksize]
    by (simp add: C_def zdiv_int)
  have "0 < C" using assms by (simp add: C_def div_greater_zero_iff)
  then have r: "py_range (int C) = 0 # [Suc 0..<C]"
    by (simp add: py_range_def upt_conv_Cons)
  show ?thesis
    unfolding phase_pass4_def q by (simp add: r phase_step4_first)
qed

lemma dyn_adapt4_stitch_single:
  "dyn_adapt4_stitch meter t division xfade g True samplerate audio =
     (case phase_pass4 meter t g (blocksize_of division samplerate)
             (fadesize_of (blocksize_of division samplerate) xfade) [] audio of
        Inl e \<Rightarrow> Inl e
      | Inr (new_audio, prev_audio) \<Rightarrow> Inr new_audio)"
  by (simp add: dyn_adapt4_stitch_def Let_def split: sum.splits prod.splits)

text \<open>
  Claim C1, as the code has it: with phase 2 enabled, the second pass runs on the
  \<^emph>\<open>output of the first pass\<close> with its first \<open>blocksize div 2\<close> frames removed (not on
  the input buffer), and the result before the final normalisation is the first
  \<open>blocksize div 2\<close> frames of the first pass's output followed by the whole output of
  the second pass. So the first pass's result beyond its first half block is the input
  of the second pass. Stated for a positive block duration and sample rate, a crossfade
  ratio in \<open>(0, 1)\<close> and a buffer of at least one and a half blocks, where both passes
  have a block to process; \<open>p1\<close> and \<open>p2\<close> are the outputs of the single-pass program.
\<close>

theorem phase2_runs_on_phase1_output:
  assumes "0 < division" "0 < samplerate" "0 < xfade" "xfade < 1"
    and "nat (blocksize_of division samplerate) + nat (blocksize_of division samplerate div 2)
           \<le> length audio"
  shows "\<exists>p1 p2.
           dyn_adapt4_stitch meter t division xfade g True samplerate audio = Inr p1
         \<and> length p1 = length audio
         \<and> dyn_adapt4_stitch meter t division xfade g True samplerate
              (drop (nat (blocksize_of division samplerate div 2)) p1) = Inr p2
         \<and> length p2 = length audio - nat (blocksize_of division samplerate div 2)
         \<and> dyn_adapt4_stitch meter t division xfade g False samplerate audio =
              Inr (take (nat (blocksize_of division samplerate div 2)) p1 @ p2)"
proof -
  define bs where "bs = blocksize_of division samplerate"
  define fs where "fs = fadesize_of bs xfade"
  define h where "h = nat (bs div 2)"
  have bs0: "0 < bs" using assms(1,2) by (simp add: bs_def blocksize_of_def)
  have fsb: "0 \<le> fs" "fs \<le> bs"
    using fadesize_of_bounds[of bs xfade] bs0 assms(3,4) by (simp_all add: fs_def)
  have N: "nat bs + h \<le> length audio" using assms(5) by (simp add: bs_def h_def)
  then have N1: "nat bs \<le> length audio" by simp
  from phase_pass4_length[OF bs0 fsb N1, of meter t g "[]"]
  obtain p1 held1 where p1: "phase_pass4 meter t g bs fs [] audio = Inr (p1, held1)"
    "length p1 = length audio" by blast
  have N2: "nat bs \<le> length (drop h p1)" using N p1(2) by simp
  from phase_pass4_length[OF bs0 fsb N2, of meter t g "[]"]
  obtain p2 held2 where p2: "phase_pass4 meter t g bs fs [] (drop h p1) = Inr (p2, held2)"
    "length p2 = length (drop h p1)" by blast
  have p2': "phase_pass4 meter t g bs fs held1 (drop h p1) = Inr (p2, held2)"
    using phase_pass4_prev_irrelevant[OF bs0 N2, of meter t g fs held1] p2(1) by simp
  have half: "py_int (real_of_int bs / 2) = bs div 2"
    using bs0 by (simp add: py_int_half)
  have h0: "0 \<le> bs div 2" using bs0 by simp
  have s1: "dyn_adapt4_stitch meter t division xfade g True samplerate audio = Inr p1"
    using p1(1) by (simp add: dyn_adapt4_stitch_single bs_def fs_def)
  have s2: "dyn_adapt4_stitch meter t division xfade g True samplerate (drop h p1) = Inr p2"
    using p2(1) by (simp add: dyn_adapt4_stitch_single bs_def fs_def)
  have "dyn_adapt4_stitch meter t division xfade g False samplerate audio =
          Inr (take h p1 @ p2)"
    unfolding dyn_adapt4_stitch_def Let_def bs_def[symmetric] fs_def[symmetric] p1(1)
    using p2' h0
    by (simp add: half py_slice_from_nonneg py_slice_to_nonneg h_def)
  with s1 s2 p1(2) p2(2) show ?thesis
    unfolding h_def bs_def by auto
qed

text \<open>The definitions unfolded to run the programs on a concrete buffer.\<close>

lemmas run_defs = dyn_adapt4_stitch_def phase_pass4_def phase_step4_def py_int_quot_def py_int_def
  py_range_def block_slice_def start_index_def py_slice_def py_slice_from_def py_slice_to_def
  py_bound_def correct4_def limit_loudness_def normalize_loudness_def crossfade_def
  crossfade_step_def py_index_def blend_frame_def blocksize_of_def fadesize_of_def
  step_meter_def peak_def Let_def upt_rec

text \<open>
  Claim C1 on four mono frames, blocks of two frames, crossfade ratio 1/2 and the
  stand-in meter.
\<close>

theorem phase2_runs_on_phase1_output_witness:
  "(0::int) < 2 \<and> (0::nat) < 1 \<and> (0::real) < 1 / 2 \<and> (1 / 2 :: real) < 1
   \<and> nat (blocksize_of 2 1) + nat (blocksize_of 2 1 div 2) \<le> length [[1 / 1000 :: real], [1 / 1000], [1 / 100], [1 / 100]]
   \<and> (\<exists>p1 p2.
           dyn_adapt4_stitch step_meter (- 20) 2 (1 / 2) 20 True 1
             [[1 / 1000], [1 / 1000], [1 / 100], [1 / 100]] = Inr p1
         \<and> length p1 = length [[1 / 1000 :: real], [1 / 1000], [1 / 100], [1 / 100]]
         \<and> dyn_adapt4_stitch step_meter (- 20) 2 (1 / 2) 20 True 1
              (drop (nat (blocksize_of 2 1 div 2)) p1) = Inr p2
         \<and> length p2 = length [[1 / 1000 :: real], [1 / 1000], [1 / 100], [1 / 100]]
                          - nat (blocksize_of 2 1 div 2)
         \<and> dyn_adapt4_stitch step_meter (- 20) 2 (1 / 2) 20 False 1
              [[1 / 1000], [1 / 1000], [1 / 100], [1 / 100]] =
              Inr (take (nat (blocksize_of 2 1 div 2)) p1 @ p2))"
proof -
  have h: "nat (blocksize_of 2 1) + nat (blocksize_of 2 1 div 2)
      \<le> length [[1 / 1000 :: real], [1 / 1000], [1 / 100], [1 / 100]]"
    by (simp add: blocksize_of_def)
  show ?thesis
    using h phase2_runs_on_phase1_output[of 2 1 "1 / 2"
        "[[1 / 1000], [1 / 1000], [1 / 100], [1 / 100]]" step_meter "- 20" 20, OF _ _ _ _ h]
    by simp
qed

text \<open>
  Claim C1 as stated (the second pass runs on the input buffer with its first half block
  removed, so that the first pass's result beyond its first half block has no influence)
  fails. On four frames at \<open>1/1000\<close>, target -20 and maximum gain 20, with blocks of two
  frames: the first pass raises every frame to \<open>1/100\<close>; a second pass over the input
  would give \<open>1/100\<close> again, but the program's second pass runs over the first pass's
  output and raises the frames after the first to \<open>1/10\<close>.
\<close>

theorem phase2_input_counterexample:
  "dyn_adapt4_stitch step_meter (- 20) 2 (1 / 2) 20 True 1
     [[1 / 1000, 1 / 1000], [1 / 1000, 1 / 1000], [1 / 1000, 1 / 1000], [1 / 1000, 1 / 1000]]
     = Inr [[1 / 100, 1 / 100], [1 / 100, 1 / 100], [1 / 100, 1 / 100], [1 / 100, 1 / 100]]
   \<and> dyn_adapt4_stitch step_meter (- 20) 2 (1 / 2) 20 True 1
     (drop (nat (blocksize_of 2 1 div 2))
        [[1 / 1000, 1 / 1000], [1 / 1000, 1 / 1000], [1 / 1000, 1 / 1000], [1 / 1000, 1 / 1000]])
     = Inr [[1 / 100, 1 / 100], [1 / 100, 1 / 100], [1 / 100, 1 / 100]]
   \<and> dyn_adapt4_stitch step_meter (- 20) 2 (1 / 2) 20 False 1
     [[1 / 1000, 1 / 1000], [1 / 1000, 1 / 1000], [1 / 1000, 1 / 1000], [1 / 1000, 1 / 1000]]
     = Inr [[1 / 100, 1 / 100], [1 / 10, 1 / 10], [1 / 10, 1 / 10], [1 / 10, 1 / 10]]
   \<and> dyn_adapt4_stitch step_meter (- 20) 2 (1 / 2) 20 False 1
     [[1 / 1000, 1 / 1000], [1 / 1000, 1 / 1000], [1 / 1000, 1 / 1000], [1 / 1000, 1 / 1000]]
     \<noteq> Inr (take (nat (blocksize_of 2 1 div 2))
               [[1 / 100, 1 / 100], [1 / 100, 1 / 100], [1 / 100, 1 / 100], [1 / 100, 1 / 100]]
             @ [[1 / 100, 1 / 100], [1 / 100, 1 / 100], [1 / 100, 1 / 100]])"
  by (simp add: run_defs)

section \<open>The two variants\<close>

lemma no_clamp_finite:
  assumes "\<not> clamp_triggers t g l"
  shows "\<exists>m. l = Fin m \<and> limit_loudness t g l = m"
  using assms by (cases l) (auto simp: clamp_triggers_def limit_loudness_def)

lemma phase_step_agree:
  assumes "\<not> clamp_triggers t g (meter (block_slice bs fs cnt idx audio))"
  shows "phase_step4 meter t g bs fs cnt audio idx st = phase_step2 meter t bs fs cnt audio idx st"
proof -
  from no_clamp_finite[OF assms] obtain m where
    m: "meter (block_slice bs fs cnt idx audio) = Fin m" and "limit_loudness t g (Fin m) = m"
    by auto
  then have c: "correct2 t (meter (block_slice bs fs cnt idx audio)) (block_slice bs fs cnt idx audio)
      = Inr (correct4 t g (meter (block_slice bs fs cnt idx audio))
               (block_slice bs fs cnt idx audio))"
    by (simp add: correct2_def correct4_def)
  obtain new_audio prev_audio where st: "st = (new_audio, prev_audio)" by (cases st)
  show ?thesis
    unfolding st phase_step4_def phase_step2_def Let_def c by simp
qed

lemma dyn_adapt4_stitch_loop:
  "dyn_adapt4_stitch meter t division xfade g True samplerate audio =
     (case py_int_quot (int (length audio)) (blocksize_of division samplerate) of
        Inl e \<Rightarrow> Inl e
      | Inr cnt \<Rightarrow>
          (case for_loop
                  (phase_step4 meter t g (blocksize_of division samplerate)
                     (fadesize_of (blocksize_of division samplerate) xfade) cnt audio)
                  (py_range cnt) ([], []) of
             Inl e \<Rightarrow> Inl e
           | Inr (new_audio, prev_audio) \<Rightarrow> Inr (new_audio @ prev_audio)))"
  by (simp add: dyn_adapt4_stitch_def phase_pass4_def Let_def split: sum.splits prod.splits)

lemma dyn_adapt2_stitch_loop:
  "dyn_adapt2_stitch meter t division samplerate audio =
     (case py_int_quot (int (length audio)) (blocksize_of (int division) samplerate) of
        Inl e \<Rightarrow> Inl e
      | Inr cnt \<Rightarrow>
          (case for_loop
                  (phase_step2 meter t (blocksize_of (int division) samplerate)
                     (fadesize_of (blocksize_of (int division) samplerate) (6 / 10)) cnt audio)
                  (py_range cnt) ([], []) of
             Inl e \<Rightarrow> Inl e
           | Inr (new_audio, prev_audio) \<Rightarrow> Inr (new_audio @ prev_audio)))"
  unfolding dyn_adapt2_stitch_def Let_def blocksize_of_def fadesize_of_def by (rule refl)

text \<open>
  Claim C10: with the same block division, target loudness and crossfade ratio (the
  simple variant's fixed 0.6), with phase 2 disabled and a maximum gain that no block's
  gap to the target exceeds, the refined variant's buffer before the final normalisation
  equals the simple variant's, errors included.
\<close>

theorem variants_agree_without_clamp:
  assumes "\<forall>l \<in> set (measured_blocks meter (blocksize_of (int division) samplerate)
                     (fadesize_of (blocksize_of (int division) samplerate) (6 / 10)) audio).
             \<not> clamp_triggers t g l"
  shows "dyn_adapt4_stitch meter t (int division) (6 / 10) g True samplerate audio =
         dyn_adapt2_stitch meter t division samplerate audio"
proof -
  define bs where "bs = blocksize_of (int division) samplerate"
  define fs where "fs = fadesize_of bs (6 / 10)"
  show ?thesis
  proof (cases "py_int_quot (int (length audio)) bs")
    case (Inl e)
    then show ?thesis
      unfolding dyn_adapt4_stitch_loop dyn_adapt2_stitch_loop bs_def by simp
  next
    case (Inr cnt)
    have mb: "measured_blocks meter bs fs audio =
        map (\<lambda>idx. meter (block_slice bs fs cnt idx audio)) (py_range cnt)"
      by (simp add: measured_blocks_def Inr)
    have "for_loop (phase_step4 meter t g bs fs cnt audio) (py_range cnt) ([], []) =
          for_loop (phase_step2 meter t bs fs cnt audio) (py_range cnt) ([], [])"
    proof (rule for_loop_cong_on)
      fix idx st assume "idx \<in> set (py_range cnt)"
      then have "meter (block_slice bs fs cnt idx audio) \<in> set (measured_blocks meter bs fs audio)"
        by (simp add: mb)
      then have "\<not> clamp_triggers t g (meter (block_slice bs fs cnt idx audio))"
        using assms unfolding bs_def fs_def by blast
      then show "phase_step4 meter t g bs fs cnt audio idx st =
                 phase_step2 meter t bs fs cnt audio idx st"
        by (rule phase_step_agree)
    qed
    then show ?thesis
      using Inr
      unfolding dyn_adapt4_stitch_loop dyn_adapt2_stitch_loop bs_def fs_def by simp
  qed
qed

text \<open>The further definitions unfolded to run the simple variant on a concrete buffer.\<close>

lemmas run2_defs = dyn_adapt2_stitch_def phase_step2_def correct2_def measured_blocks_def
  clamp_triggers_def

text \<open>
  Claim C10 on five stereo frames with blocks of two frames, target -20 and maximum
  gain 20: the blocks measure -40 and -20, neither triggers the clamp, and both
  variants raise the first block by 20 dB and leave the second.
\<close>

theorem variants_agree_without_clamp_witness:
  "measured_blocks step_meter (blocksize_of (int 2) 1)
      (fadesize_of (blocksize_of (int 2) 1) (6 / 10))
      [[1 / 100, 1 / 100], [1 / 100, 1 / 100], [1 / 2, 1 / 2], [1 / 2, 1 / 2], [1 / 2, 1 / 2]]
     = [Fin (- 40), Fin (- 20)]
   \<and> \<not> clamp_triggers (- 20) 20 (Fin (- 40)) \<and> \<not> clamp_triggers (- 20) 20 (Fin (- 20))
   \<and> dyn_adapt4_stitch step_meter (- 20) (int 2) (6 / 10) 20 True 1
        [[1 / 100, 1 / 100], [1 / 100, 1 / 100], [1 / 2, 1 / 2], [1 / 2, 1 / 2], [1 / 2, 1 / 2]]
     = dyn_adapt2_stitch step_meter (- 20) 2 1
        [[1 / 100, 1 / 100], [1 / 100, 1 / 100], [1 / 2, 1 / 2], [1 / 2, 1 / 2], [1 / 2, 1 / 2]]
   \<and> dyn_adapt2_stitch step_meter (- 20) 2 1
        [[1 / 100, 1 / 100], [1 / 100, 1 / 100], [1 / 2, 1 / 2], [1 / 2, 1 / 2], [1 / 2, 1 / 2]]
     = Inr [[1 / 10, 1 / 10], [1 / 10, 1 / 10], [1 / 2, 1 / 2], [1 / 2, 1 / 2], [1 / 2, 1 / 2]]"
proof -
  let ?a = "[[1 / 100, 1 / 100], [1 / 100, 1 / 100], [1 / 2, 1 / 2], [1 / 2, 1 / 2], [1 / 2, 1 / 2 :: real]]"
  have mb: "measured_blocks step_meter (blocksize_of (int 2) 1)
      (fadesize_of (blocksize_of (int 2) 1) (6 / 10)) ?a = [Fin (- 40), Fin (- 20)]"
    by (simp add: run_defs run2_defs)
  have nc: "\<not> clamp_triggers (- 20) 20 (Fin (- 40))" "\<not> clamp_triggers (- 20) 20 (Fin (- 20))"
    by (simp_all add: clamp_triggers_def)
  have h: "\<forall>l \<in> set (measured_blocks step_meter (blocksize_of (int 2) 1)
                     (fadesize_of (blocksize_of (int 2) 1) (6 / 10)) ?a).
             \<not> clamp_triggers (- 20) 20 l"
    unfolding mb using nc by simp
  have v: "dyn_adapt2_stitch step_meter (- 20) 2 1 ?a =
      Inr [[1 / 10, 1 / 10], [1 / 10, 1 / 10], [1 / 2, 1 / 2], [1 / 2, 1 / 2], [1 / 2, 1 / 2]]"
    by (simp add: run_defs run2_defs)
  show ?thesis
    using mb nc v variants_agree_without_clamp[OF h] by simp
qed

section \<open>Crossfade in the block loop\<close>

text \<open>
  The state a pass is in when it reaches a block after the first: the held block is the
  gain-corrected block before, without its own fade-in, and it has \<open>blocksize\<close> frames.
  The lemma is about any loop body of the shape both scripts have.
\<close>

lemma block_loop_held:
  fixes body :: "nat \<Rightarrow> audio \<times> audio \<Rightarrow> error + audio \<times> audio"
  assumes FB: "F \<le> B"
    and first: "\<And>new_audio prev_audio. body 0 (new_audio, prev_audio) = Inr (new_audio, cb 0)"
    and later: "\<And>i new_audio prev_audio. 0 < i \<Longrightarrow> i < idx \<Longrightarrow>
        body i (new_audio, prev_audio) =
          (case crossfade (int B) (int F) (cb i) prev_audio of
             Inl e \<Rightarrow> Inl e
           | Inr p \<Rightarrow> Inr (new_audio @ p, drop F (cb i)))"
    and len0: "length (cb 0) = B"
    and leni: "\<And>i. 0 < i \<Longrightarrow> i < idx \<Longrightarrow> length (cb i) = B + F"
    and idx: "0 < idx"
  shows "\<exists>new_audio.
           for_loop body [0..<idx] ([], prev0) =
             Inr (new_audio, drop (if idx = 1 then 0 else F) (cb (idx - 1)))
         \<and> length new_audio = (idx - 1) * B
         \<and> length (drop (if idx = 1 then 0 else F) (cb (idx - 1))) = B"
proof -
  define held where "held = (\<lambda>i. drop (if i = 1 then 0 else F) (cb (i - 1)))"
  have lheld: "length (held i) = B" if "0 < i" "i \<le> idx" for i
  proof (cases "i = 1")
    case True
    then show ?thesis using len0 by (simp add: held_def)
  next
    case False
    then have "0 < i - 1" "i - 1 < idx" using that by simp_all
    then have "length (cb (i - 1)) = B + F" by (rule leni)
    then show ?thesis using False by (simp add: held_def)
  qed
  define I where "I = (\<lambda>i (st :: audio \<times> audio).
     (i = 0 \<and> fst st = []) \<or> (0 < i \<and> length (fst st) = (i - 1) * B \<and> snd st = held i))"
  have init: "I 0 ([], prev0)" by (simp add: I_def)
  have step: "\<exists>t'. body i st = Inr t' \<and> I (Suc i) t'" if "0 \<le> i" "i < idx" "I i st" for i st
  proof (cases "i = 0")
    case True
    obtain new_audio prev_audio where st: "st = (new_audio, prev_audio)" by (cases st)
    have "new_audio = []" using that(3) True st by (simp add: I_def)
    then show ?thesis unfolding st True first by (simp add: I_def held_def)
  next
    case False
    then have ipos: "0 < i" by simp
    obtain new_audio prev_audio where st: "st = (new_audio, prev_audio)" by (cases st)
    have lnew: "length new_audio = (i - 1) * B" and prev: "prev_audio = held i"
      using that(3) ipos st by (auto simp: I_def)
    have lprev: "length prev_audio = B" using lheld[of i] ipos that(2) prev by simp
    have lcb: "length (cb i) = B + F" using leni[OF ipos that(2)] .
    from crossfade_result[of "int F" "int B" prev_audio "cb i"] FB lprev lcb
    obtain p where p: "crossfade (int B) (int F) (cb i) prev_audio = Inr p" "length p = B"
      by auto
    have "(i - 1) * B + B = i * B" using ipos
      by (metis Suc_diff_1 mult_Suc add.commute)
    then show ?thesis
      unfolding st later[OF ipos that(2)] p(1) using p(2) lnew ipos
      by (simp add: I_def held_def)
  qed
  from for_loop_upt_rule[where I = I and body = body and a = 0 and b = idx and s = "([], prev0)",
      OF init step]
  obtain st where st: "for_loop body [0..<idx] ([], prev0) = Inr st" "I idx st"
    by auto
  obtain new_audio prev_audio where nh: "st = (new_audio, prev_audio)" by (cases st)
  have "length new_audio = (idx - 1) * B" "prev_audio = held idx"
    using st(2) idx nh by (auto simp: I_def)
  then show ?thesis using st(1) nh lheld[of idx] idx by (auto simp: held_def)
qed

lemma length_block_slice_inner:
  assumes FB: "F \<le> B" and i: "Suc i < C" and CB: "C * B \<le> length audio"
  shows "length (block_slice (int B) (int F) (int C) i audio) = (if i = 0 then B else B + F)"
proof -
  have ne: "int i \<noteq> int C - 1" using i by auto
  have "Suc (Suc i) * B \<le> C * B" using i by (intro mult_le_mono1) simp
  then have le: "i * B + B + B \<le> length audio" using CB by simp
  show ?thesis
  proof (cases "i = 0")
    case True
    then show ?thesis using ne le by (simp add: block_slice_nat[OF FB])
  next
    case False
    then have "F \<le> i * B" using FB
      by (metis One_nat_def Suc_leI le_trans mult.commute mult_le_mono2 nat_mult_1_right
          neq0_conv)
    then show ?thesis using False ne le by (simp add: block_slice_nat[OF FB])
  qed
qed

lemma length_block_slice_fade:
  assumes FB: "F \<le> B" and i: "0 < i" "i < C" and CB: "C * B \<le> length audio"
  shows "F \<le> length (block_slice (int B) (int F) (int C) i audio)"
proof (cases "Suc i = C")
  case True
  then have last: "int i = int C - 1" by simp
  have "Suc i * B \<le> length audio" using True CB by simp
  then have le: "i * B \<le> length audio" by simp
  have "F \<le> i * B" using FB i(1)
    by (metis One_nat_def Suc_leI le_trans mult.commute mult_le_mono2 nat_mult_1_right)
  with le have "F \<le> length audio - (i * B - F)" by arith
  then show ?thesis using last by (simp add: block_slice_nat[OF FB])
next
  case False
  then have "Suc i < C" using i by simp
  from length_block_slice_inner[OF FB this CB] i(1) show ?thesis by simp
qed

lemma phase_step2_first:
  "phase_step2 meter t bs fs cnt audio 0 (new_audio, prev_audio) =
     (case correct2 t (meter (block_slice bs fs cnt 0 audio)) (block_slice bs fs cnt 0 audio) of
        Inl e \<Rightarrow> Inl e
      | Inr sub_audio \<Rightarrow> Inr (new_audio, sub_audio))"
  by (simp add: phase_step2_def Let_def split: sum.splits)

lemma phase_step4_blend:
  assumes "0 < idx"
  shows "phase_step4 meter t g bs fs cnt audio idx (new_audio, prev_audio) =
     (case crossfade bs fs
             (correct4 t g (meter (block_slice bs fs cnt idx audio))
                (block_slice bs fs cnt idx audio)) prev_audio of
        Inl e \<Rightarrow> Inl e
      | Inr p \<Rightarrow>
          Inr (new_audio @ p,
               py_slice_from fs
                 (correct4 t g (meter (block_slice bs fs cnt idx audio))
                    (block_slice bs fs cnt idx audio))))"
  using assms by (simp add: phase_step4_def Let_def)

lemma phase_step2_blend:
  assumes "0 < idx"
    and "correct2 t (meter (block_slice bs fs cnt idx audio)) (block_slice bs fs cnt idx audio)
           = Inr cur"
  shows "phase_step2 meter t bs fs cnt audio idx (new_audio, prev_audio) =
     (case crossfade bs fs cur prev_audio of
        Inl e \<Rightarrow> Inl e
      | Inr p \<Rightarrow> Inr (new_audio @ p, py_slice_from fs cur))"
  using assms by (simp add: phase_step2_def Let_def)

lemma crossfade_tail_blend:
  assumes "0 \<le> fadesize" "fadesize \<le> blocksize"
    and "length prev_audio = nat blocksize"
    and "nat fadesize \<le> length sub_audio"
  shows "\<exists>blended.
           crossfade blocksize fadesize sub_audio prev_audio = Inr blended
         \<and> length blended = nat blocksize
         \<and> (\<forall>k < nat (blocksize - fadesize). blended ! k = prev_audio ! k)
         \<and> (\<forall>j < nat fadesize. \<forall>ch.
               ch < length (prev_audio ! (nat (blocksize - fadesize) + j))
               \<and> ch < length (sub_audio ! j) \<longrightarrow>
                 blended ! (nat (blocksize - fadesize) + j) ! ch =
                   (1 - real j / real_of_int fadesize)
                     * prev_audio ! (nat (blocksize - fadesize) + j) ! ch
                   + (real j / real_of_int fadesize) * sub_audio ! j ! ch
               \<and> min (prev_audio ! (nat (blocksize - fadesize) + j) ! ch) (sub_audio ! j ! ch)
                   \<le> blended ! (nat (blocksize - fadesize) + j) ! ch
               \<and> blended ! (nat (blocksize - fadesize) + j) ! ch
                   \<le> max (prev_audio ! (nat (blocksize - fadesize) + j) ! ch) (sub_audio ! j ! ch))"
proof -
  define off where "off = nat (blocksize - fadesize)"
  from crossfade_result[OF assms(1,2) _ assms(4), of prev_audio] assms(3)
  obtain blended where b: "crossfade blocksize fadesize sub_audio prev_audio = Inr blended"
    "length blended = length prev_audio"
    "\<forall>j < nat fadesize. blended ! (off + j) =
        blend_frame (1 - real j * (1 / real_of_int fadesize))
          (real j * (1 / real_of_int fadesize)) (prev_audio ! (off + j)) (sub_audio ! j)"
    "\<forall>k < length prev_audio. k < off \<or> nat blocksize \<le> k \<longrightarrow> blended ! k = prev_audio ! k"
    unfolding off_def by auto
  have keep: "\<forall>k < off. blended ! k = prev_audio ! k"
  proof (intro allI impI)
    fix k assume "k < off"
    moreover from this have "k < length prev_audio" using assms(1,3) by (simp add: off_def)
    ultimately show "blended ! k = prev_audio ! k" using b(4) by simp
  qed
  have blend: "blended ! (off + j) ! ch =
        (1 - real j / real_of_int fadesize) * prev_audio ! (off + j) ! ch
        + (real j / real_of_int fadesize) * sub_audio ! j ! ch
      \<and> min (prev_audio ! (off + j) ! ch) (sub_audio ! j ! ch) \<le> blended ! (off + j) ! ch
      \<and> blended ! (off + j) ! ch \<le> max (prev_audio ! (off + j) ! ch) (sub_audio ! j ! ch)"
    if "j < nat fadesize" "ch < length (prev_audio ! (off + j))" "ch < length (sub_audio ! j)"
    for j ch
  proof -
    define w where "w = real j / real_of_int fadesize"
    have fpos: "0 < real_of_int fadesize" using that(1) by simp
    have "real j < real_of_int fadesize" using that(1) by linarith
    then have w01: "0 \<le> w" "w \<le> 1" using fpos by (simp_all add: w_def)
    have "blended ! (off + j) =
        blend_frame (1 - w) w (prev_audio ! (off + j)) (sub_audio ! j)"
      using b(3) that(1) by (simp add: w_def)
    then have eq: "blended ! (off + j) ! ch =
        (1 - w) * prev_audio ! (off + j) ! ch + w * sub_audio ! j ! ch"
      using that(2,3) by (simp add: blend_frame_nth)
    show ?thesis
      unfolding eq using blend_between[OF w01] by (simp add: w_def)
  qed
  have lb: "length blended = nat blocksize" using b(2) assms(3) by simp
  show ?thesis
    unfolding off_def[symmetric]
    using b(1) lb keep blend by blast
qed

lemma blend_ramp_increasing:
  assumes "j1 < j2" "j2 < nat fadesize"
  shows "real j1 * (1 / real_of_int fadesize) < real j2 * (1 / real_of_int fadesize)"
proof -
  have "0 < real_of_int fadesize" using assms(2) by simp
  then show ?thesis using assms(1) by (simp add: divide_strict_right_mono)
qed

lemma block_count_nat:
  assumes "0 < blocksize" "py_int_quot (int (length audio)) blocksize = Inr block_count"
  shows "block_count = int (length audio div nat blocksize)"
    and "(length audio div nat blocksize) * nat blocksize \<le> length audio"
proof -
  have "py_int_quot (int (length audio)) blocksize = Inr (int (length audio) div blocksize)"
    using assms(1) by (simp add: py_int_quot_pos)
  with assms(2) have "block_count = int (length audio) div blocksize" by simp
  also have "\<dots> = int (length audio div nat blocksize)"
    using assms(1) by (simp add: zdiv_int)
  finally show "block_count = int (length audio div nat blocksize)" .
  show "(length audio div nat blocksize) * nat blocksize \<le> length audio" by simp
qed

lemma phase_loop4_blend:
  assumes bs: "0 < blocksize" and fs: "0 \<le> fadesize" "fadesize \<le> blocksize"
    and cnt: "py_int_quot (int (length audio)) blocksize = Inr block_count"
    and idx: "0 < idx" "int idx < block_count"
  shows "\<exists>new_audio prev_audio cur blended.
           for_loop (phase_step4 meter t g blocksize fadesize block_count audio) [0..<idx]
             ([], prev0) = Inr (new_audio, prev_audio)
         \<and> prev_audio =
             drop (if idx = 1 then 0 else nat fadesize)
               (correct4 t g (meter (block_slice blocksize fadesize block_count (idx - 1) audio))
                  (block_slice blocksize fadesize block_count (idx - 1) audio))
         \<and> length prev_audio = nat blocksize
         \<and> cur = correct4 t g (meter (block_slice blocksize fadesize block_count idx audio))
                   (block_slice blocksize fadesize block_count idx audio)
         \<and> phase_step4 meter t g blocksize fadesize block_count audio idx (new_audio, prev_audio)
             = Inr (new_audio @ blended, drop (nat fadesize) cur)
         \<and> for_loop (phase_step4 meter t g blocksize fadesize block_count audio)
               (py_range block_count) ([], prev0)
             = for_loop (phase_step4 meter t g blocksize fadesize block_count audio)
                 [Suc idx..<nat block_count] (new_audio @ blended, drop (nat fadesize) cur)
         \<and> length blended = nat blocksize
         \<and> (\<forall>k < nat (blocksize - fadesize). blended ! k = prev_audio ! k)
         \<and> (\<forall>j < nat fadesize. \<forall>ch.
               ch < length (prev_audio ! (nat (blocksize - fadesize) + j))
               \<and> ch < length (cur ! j) \<longrightarrow>
                 blended ! (nat (blocksize - fadesize) + j) ! ch =
                   (1 - real j / real_of_int fadesize)
                     * prev_audio ! (nat (blocksize - fadesize) + j) ! ch
                   + (real j / real_of_int fadesize) * cur ! j ! ch
               \<and> min (prev_audio ! (nat (blocksize - fadesize) + j) ! ch) (cur ! j ! ch)
                   \<le> blended ! (nat (blocksize - fadesize) + j) ! ch
               \<and> blended ! (nat (blocksize - fadesize) + j) ! ch
                   \<le> max (prev_audio ! (nat (blocksize - fadesize) + j) ! ch) (cur ! j ! ch))"
proof -
  define B where "B = nat blocksize"
  define F where "F = nat fadesize"
  define C where "C = length audio div B"
  have bsB: "blocksize = int B" and fsF: "fadesize = int F"
    using bs fs by (simp_all add: B_def F_def)
  have FB: "F \<le> B" using fs by (simp add: B_def F_def)
  have cntC: "block_count = int C" and CB: "C * B \<le> length audio"
    using block_count_nat[OF bs cnt] by (simp_all add: C_def B_def)
  have iC: "idx < C" using idx(2) cntC by simp
  define cb where "cb = (\<lambda>i. correct4 t g (meter (block_slice (int B) (int F) (int C) i audio))
                     (block_slice (int B) (int F) (int C) i audio))"
  let ?body = "phase_step4 meter t g (int B) (int F) (int C) audio"
  have first: "?body 0 (new_audio, prev_audio) = Inr (new_audio, cb 0)" for new_audio prev_audio
    by (simp add: phase_step4_first cb_def)
  have later: "?body i (new_audio, prev_audio) =
          (case crossfade (int B) (int F) (cb i) prev_audio of
             Inl e \<Rightarrow> Inl e
           | Inr p \<Rightarrow> Inr (new_audio @ p, drop F (cb i)))"
    if "0 < i" for i new_audio prev_audio
    using phase_step4_blend[OF that, of meter t g "int B" "int F" "int C" audio new_audio prev_audio]
    by (simp add: cb_def py_slice_from_nonneg split: sum.splits)
  have len0: "length (cb 0) = B"
    using length_block_slice_inner[OF FB _ CB, of 0] idx(1) iC by (simp add: cb_def)
  have leni: "length (cb i) = B + F" if "0 < i" "i < idx" for i
    using length_block_slice_inner[OF FB _ CB, of i] that iC by (simp add: cb_def)
  from block_loop_held[of F B ?body cb idx prev0, OF FB first later len0 leni idx(1)]
  obtain new_audio where st:
    "for_loop ?body [0..<idx] ([], prev0) =
       Inr (new_audio, drop (if idx = 1 then 0 else F) (cb (idx - 1)))"
    "length (drop (if idx = 1 then 0 else F) (cb (idx - 1))) = B"
    by blast
  define prev_audio where "prev_audio = drop (if idx = 1 then 0 else F) (cb (idx - 1))"
  have lprev: "length prev_audio = nat (int B)" using st(2) by (simp add: prev_audio_def)
  have lcur: "nat (int F) \<le> length (cb idx)"
    using length_block_slice_fade[OF FB idx(1) iC CB] by (simp add: cb_def)
  define cur where "cur = cb idx"
  have lcur': "nat (int F) \<le> length cur" using lcur by (simp add: cur_def)
  from crossfade_tail_blend[of "int F" "int B" prev_audio cur, OF _ _ lprev lcur'] FB
  obtain blended where bl:
    "crossfade (int B) (int F) cur prev_audio = Inr blended"
    "length blended = nat (int B)"
    "\<forall>k < nat (int B - int F). blended ! k = prev_audio ! k"
    "\<forall>j < nat (int F). \<forall>ch.
               ch < length (prev_audio ! (nat (int B - int F) + j))
               \<and> ch < length (cur ! j) \<longrightarrow>
                 blended ! (nat (int B - int F) + j) ! ch =
                   (1 - real j / real_of_int (int F))
                     * prev_audio ! (nat (int B - int F) + j) ! ch
                   + (real j / real_of_int (int F)) * cur ! j ! ch
               \<and> min (prev_audio ! (nat (int B - int F) + j) ! ch) (cur ! j ! ch)
                   \<le> blended ! (nat (int B - int F) + j) ! ch
               \<and> blended ! (nat (int B - int F) + j) ! ch
                   \<le> max (prev_audio ! (nat (int B - int F) + j) ! ch) (cur ! j ! ch)"
    by auto
  have stp: "?body idx (new_audio, prev_audio) = Inr (new_audio @ blended, drop (nat (int F)) cur)"
    using later[OF idx(1)] bl(1) by (simp add: cur_def)
  have pa: "prev_audio = drop (if idx = 1 then 0 else nat (int F))
      (correct4 t g (meter (block_slice (int B) (int F) (int C) (idx - 1) audio))
         (block_slice (int B) (int F) (int C) (idx - 1) audio))"
    by (simp add: prev_audio_def cb_def)
  have cd: "cur = correct4 t g (meter (block_slice (int B) (int F) (int C) idx audio))
                   (block_slice (int B) (int F) (int C) idx audio)"
    by (simp add: cur_def cb_def)
  have lp: "for_loop ?body [0..<idx] ([], prev0) = Inr (new_audio, prev_audio)"
    using st(1) by (simp add: prev_audio_def)
  have "[0..<idx + (C - idx)] = [0..<idx] @ [idx..<idx + (C - idx)]"
    by (rule upt_add_eq_append) simp
  then have "[0..<C] = [0..<idx] @ [idx..<C]" using iC by simp
  then have "[0..<C] = [0..<idx] @ idx # [Suc idx..<C]"
    using iC by (simp add: upt_conv_Cons)
  then have whole: "for_loop ?body (py_range (int C)) ([], prev0) =
      for_loop ?body [Suc idx..<nat (int C)] (new_audio @ blended, drop (nat (int F)) cur)"
    using lp stp by (simp add: py_range_def for_loop_append)
  show ?thesis
    unfolding bsB fsF cntC
    using whole lp pa lprev cd stp bl(2,3,4) by blast
qed

lemma phase_loop2_blend:
  assumes bs: "0 < blocksize" and fs: "0 \<le> fadesize" "fadesize \<le> blocksize"
    and cnt: "py_int_quot (int (length audio)) blocksize = Inr block_count"
    and idx: "0 < idx" "int idx < block_count"
    and fin: "\<forall>k \<le> idx. meter (block_slice blocksize fadesize block_count k audio) \<noteq> NegInf"
  shows "\<exists>new_audio prev_audio held cur blended.
           for_loop (phase_step2 meter t blocksize fadesize block_count audio) [0..<idx]
             ([], prev0) = Inr (new_audio, prev_audio)
         \<and> correct2 t (meter (block_slice blocksize fadesize block_count (idx - 1) audio))
               (block_slice blocksize fadesize block_count (idx - 1) audio) = Inr held
         \<and> prev_audio = drop (if idx = 1 then 0 else nat fadesize) held
         \<and> length prev_audio = nat blocksize
         \<and> correct2 t (meter (block_slice blocksize fadesize block_count idx audio))
               (block_slice blocksize fadesize block_count idx audio) = Inr cur
         \<and> phase_step2 meter t blocksize fadesize block_count audio idx (new_audio, prev_audio)
             = Inr (new_audio @ blended, drop (nat fadesize) cur)
         \<and> for_loop (phase_step2 meter t blocksize fadesize block_count audio)
               (py_range block_count) ([], prev0)
             = for_loop (phase_step2 meter t blocksize fadesize block_count audio)
                 [Suc idx..<nat block_count] (new_audio @ blended, drop (nat fadesize) cur)
         \<and> length blended = nat blocksize
         \<and> (\<forall>k < nat (blocksize - fadesize). blended ! k = prev_audio ! k)
         \<and> (\<forall>j < nat fadesize. \<forall>ch.
               ch < length (prev_audio ! (nat (blocksize - fadesize) + j))
               \<and> ch < length (cur ! j) \<longrightarrow>
                 blended ! (nat (blocksize - fadesize) + j) ! ch =
                   (1 - real j / real_of_int fadesize)
                     * prev_audio ! (nat (blocksize - fadesize) + j) ! ch
                   + (real j / real_of_int fadesize) * cur ! j ! ch
               \<and> min (prev_audio ! (nat (blocksize - fadesize) + j) ! ch) (cur ! j ! ch)
                   \<le> blended ! (nat (blocksize - fadesize) + j) ! ch
               \<and> blended ! (nat (blocksize - fadesize) + j) ! ch
                   \<le> max (prev_audio ! (nat (blocksize - fadesize) + j) ! ch) (cur ! j ! ch))"
proof -
  define B where "B = nat blocksize"
  define F where "F = nat fadesize"
  define C where "C = length audio div B"
  have bsB: "blocksize = int B" and fsF: "fadesize = int F"
    using bs fs by (simp_all add: B_def F_def)
  have FB: "F \<le> B" using fs by (simp add: B_def F_def)
  have cntC: "block_count = int C" and CB: "C * B \<le> length audio"
    using block_count_nat[OF bs cnt] by (simp_all add: C_def B_def)
  have iC: "idx < C" using idx(2) cntC by simp
  define blk where "blk = (\<lambda>i. block_slice (int B) (int F) (int C) i audio)"
  define cb where "cb = (\<lambda>i. case meter (blk i) of
      Fin m \<Rightarrow> normalize_loudness (blk i) m t | NegInf \<Rightarrow> [])"
  have c2: "correct2 t (meter (blk k)) (blk k) = Inr (cb k)" and lcb: "length (cb k) = length (blk k)"
    if "k \<le> idx" for k
  proof -
    from fin that have "meter (blk k) \<noteq> NegInf" by (simp add: blk_def bsB fsF cntC)
    then obtain m where m: "meter (blk k) = Fin m" by (cases "meter (blk k)") auto
    show "correct2 t (meter (blk k)) (blk k) = Inr (cb k)" by (simp add: correct2_def cb_def m)
    show "length (cb k) = length (blk k)" by (simp add: cb_def m)
  qed
  let ?body = "phase_step2 meter t (int B) (int F) (int C) audio"
  have first: "?body 0 (new_audio, prev_audio) = Inr (new_audio, cb 0)" for new_audio prev_audio
    using c2[of 0] by (simp add: phase_step2_first blk_def)
  have later: "?body i (new_audio, prev_audio) =
          (case crossfade (int B) (int F) (cb i) prev_audio of
             Inl e \<Rightarrow> Inl e
           | Inr p \<Rightarrow> Inr (new_audio @ p, drop F (cb i)))"
    if "0 < i" "i \<le> idx" for i new_audio prev_audio
    using phase_step2_blend[OF that(1), of t meter "int B" "int F" "int C" audio "cb i"
        new_audio prev_audio] c2[OF that(2)]
    by (simp add: blk_def py_slice_from_nonneg split: sum.splits)
  have later': "?body i (new_audio, prev_audio) =
          (case crossfade (int B) (int F) (cb i) prev_audio of
             Inl e \<Rightarrow> Inl e
           | Inr p \<Rightarrow> Inr (new_audio @ p, drop F (cb i)))"
    if "0 < i" "i < idx" for i new_audio prev_audio
    using later[of i] that by simp
  have len0: "length (cb 0) = B"
    using length_block_slice_inner[OF FB _ CB, of 0] idx(1) iC lcb[of 0] by (simp add: blk_def)
  have leni: "length (cb i) = B + F" if "0 < i" "i < idx" for i
    using length_block_slice_inner[OF FB _ CB, of i] that iC lcb[of i] by (simp add: blk_def)
  from block_loop_held[of F B ?body cb idx prev0, OF FB first later' len0 leni idx(1)]
  obtain new_audio where st:
    "for_loop ?body [0..<idx] ([], prev0) =
       Inr (new_audio, drop (if idx = 1 then 0 else F) (cb (idx - 1)))"
    "length (drop (if idx = 1 then 0 else F) (cb (idx - 1))) = B"
    by blast
  define prev_audio where "prev_audio = drop (if idx = 1 then 0 else F) (cb (idx - 1))"
  define held where "held = cb (idx - 1)"
  define cur where "cur = cb idx"
  have lprev: "length prev_audio = nat (int B)" using st(2) by (simp add: prev_audio_def)
  have lcur: "nat (int F) \<le> length cur"
    using length_block_slice_fade[OF FB idx(1) iC CB] lcb[of idx] by (simp add: cur_def blk_def)
  from crossfade_tail_blend[of "int F" "int B" prev_audio cur, OF _ _ lprev lcur] FB
  obtain blended where bl:
    "crossfade (int B) (int F) cur prev_audio = Inr blended"
    "length blended = nat (int B)"
    "\<forall>k < nat (int B - int F). blended ! k = prev_audio ! k"
    "\<forall>j < nat (int F). \<forall>ch.
               ch < length (prev_audio ! (nat (int B - int F) + j))
               \<and> ch < length (cur ! j) \<longrightarrow>
                 blended ! (nat (int B - int F) + j) ! ch =
                   (1 - real j / real_of_int (int F))
                     * prev_audio ! (nat (int B - int F) + j) ! ch
                   + (real j / real_of_int (int F)) * cur ! j ! ch
               \<and> min (prev_audio ! (nat (int B - int F) + j) ! ch) (cur ! j ! ch)
                   \<le> blended ! (nat (int B - int F) + j) ! ch
               \<and> blended ! (nat (int B - int F) + j) ! ch
                   \<le> max (prev_audio ! (nat (int B - int F) + j) ! ch) (cur ! j ! ch)"
    by auto
  have stp: "?body idx (new_audio, prev_audio) = Inr (new_audio @ blended, drop (nat (int F)) cur)"
    using later[OF idx(1), of new_audio prev_audio] bl(1) by (simp add: cur_def)
  have hd: "correct2 t (meter (block_slice (int B) (int F) (int C) (idx - 1) audio))
               (block_slice (int B) (int F) (int C) (idx - 1) audio) = Inr held"
    using c2[of "idx - 1"] by (simp add: held_def blk_def)
  have pa: "prev_audio = drop (if idx = 1 then 0 else nat (int F)) held"
    by (simp add: prev_audio_def held_def)
  have cd: "correct2 t (meter (block_slice (int B) (int F) (int C) idx audio))
               (block_slice (int B) (int F) (int C) idx audio) = Inr cur"
    using c2[of idx] by (simp add: cur_def blk_def)
  have lp: "for_loop ?body [0..<idx] ([], prev0) = Inr (new_audio, prev_audio)"
    using st(1) by (simp add: prev_audio_def)
  have "[0..<idx + (C - idx)] = [0..<idx] @ [idx..<idx + (C - idx)]"
    by (rule upt_add_eq_append) simp
  then have "[0..<C] = [0..<idx] @ [idx..<C]" using iC by simp
  then have "[0..<C] = [0..<idx] @ idx # [Suc idx..<C]"
    using iC by (simp add: upt_conv_Cons)
  then have whole: "for_loop ?body (py_range (int C)) ([], prev0) =
      for_loop ?body [Suc idx..<nat (int C)] (new_audio @ blended, drop (nat (int F)) cur)"
    using lp stp by (simp add: py_range_def for_loop_append)
  show ?thesis
    unfolding bsB fsF cntC
    using whole lp hd pa lprev cd stp bl(2,3,4) by blast
qed

text \<open>
  Claim C7: at every block \<open>idx\<close> after the first, the pass of either script holds the
  previous gain-corrected block (\<open>blocksize\<close> frames), and its step crossfades the
  current gain-corrected block \<open>cur\<close> into it: the step succeeds and appends
  \<open>blended\<close>, which is the held block with its frames before the last \<open>fadesize\<close> ones
  unchanged and with
  \<open>(1 - j/fadesize) * prev + (j/fadesize) * cur\<close> at offset \<open>j\<close> of its tail, in every
  channel; the blended sample lies between the two samples it is made of; the whole loop
  of the pass goes through this step; the weight grows strictly with \<open>j\<close>; and the step
  for the first block does not blend: it holds the gain-corrected block as it is. For
  the simple variant this is stated for blocks of finite measured loudness.
\<close>

theorem crossfade_linear_blend:
  assumes "0 < blocksize" "0 \<le> fadesize" "fadesize \<le> blocksize"
    and "py_int_quot (int (length audio)) blocksize = Inr block_count"
    and "0 < idx" "int idx < block_count"
  shows "(\<exists>new_audio prev_audio cur blended.
           for_loop (phase_step4 meter t g blocksize fadesize block_count audio) [0..<idx]
             ([], prev0) = Inr (new_audio, prev_audio)
         \<and> prev_audio =
             drop (if idx = 1 then 0 else nat fadesize)
               (correct4 t g (meter (block_slice blocksize fadesize block_count (idx - 1) audio))
                  (block_slice blocksize fadesize block_count (idx - 1) audio))
         \<and> length prev_audio = nat blocksize
         \<and> cur = correct4 t g (meter (block_slice blocksize fadesize block_count idx audio))
                   (block_slice blocksize fadesize block_count idx audio)
         \<and> phase_step4 meter t g blocksize fadesize block_count audio idx (new_audio, prev_audio)
             = Inr (new_audio @ blended, drop (nat fadesize) cur)
         \<and> for_loop (phase_step4 meter t g blocksize fadesize block_count audio)
               (py_range block_count) ([], prev0)
             = for_loop (phase_step4 meter t g blocksize fadesize block_count audio)
                 [Suc idx..<nat block_count] (new_audio @ blended, drop (nat fadesize) cur)
         \<and> length blended = nat blocksize
         \<and> (\<forall>k < nat (blocksize - fadesize). blended ! k = prev_audio ! k)
         \<and> (\<forall>j < nat fadesize. \<forall>ch.
               ch < length (prev_audio ! (nat (blocksize - fadesize) + j))
               \<and> ch < length (cur ! j) \<longrightarrow>
                 blended ! (nat (blocksize - fadesize) + j) ! ch =
                   (1 - real j / real_of_int fadesize)
                     * prev_audio ! (nat (blocksize - fadesize) + j) ! ch
                   + (real j / real_of_int fadesize) * cur ! j ! ch
               \<and> min (prev_audio ! (nat (blocksize - fadesize) + j) ! ch) (cur ! j ! ch)
                   \<le> blended ! (nat (blocksize - fadesize) + j) ! ch
               \<and> blended ! (nat (blocksize - fadesize) + j) ! ch
                   \<le> max (prev_audio ! (nat (blocksize - fadesize) + j) ! ch) (cur ! j ! ch)))
       \<and> ((\<forall>k \<le> idx. meter (block_slice blocksize fadesize block_count k audio) \<noteq> NegInf) \<longrightarrow>
          (\<exists>new_audio prev_audio held cur blended.
           for_loop (phase_step2 meter t blocksize fadesize block_count audio) [0..<idx]
             ([], []) = Inr (new_audio, prev_audio)
         \<and> correct2 t (meter (block_slice blocksize fadesize block_count (idx - 1) audio))
               (block_slice blocksize fadesize block_count (idx - 1) audio) = Inr held
         \<and> prev_audio = drop (if idx = 1 then 0 else nat fadesize) held
         \<and> length prev_audio = nat blocksize
         \<and> correct2 t (meter (block_slice blocksize fadesize block_count idx audio))
               (block_slice blocksize fadesize block_count idx audio) = Inr cur
         \<and> phase_step2 meter t blocksize fadesize block_count audio idx (new_audio, prev_audio)
             = Inr (new_audio @ blended, drop (nat fadesize) cur)
         \<and> for_loop (phase_step2 meter t blocksize fadesize block_count audio)
               (py_range block_count) ([], [])
             = for_loop (phase_step2 meter t blocksize fadesize block_count audio)
                 [Suc idx..<nat block_count] (new_audio @ blended, drop (nat fadesize) cur)
         \<and> length blended = nat blocksize
         \<and> (\<forall>k < nat (blocksize - fadesize). blended ! k = prev_audio ! k)
         \<and> (\<forall>j < nat fadesize. \<forall>ch.
               ch < length (prev_audio ! (nat (blocksize - fadesize) + j))
               \<and> ch < length (cur ! j) \<longrightarrow>
                 blended ! (nat (blocksize - fadesize) + j) ! ch =
                   (1 - real j / real_of_int fadesize)
                     * prev_audio ! (nat (blocksize - fadesize) + j) ! ch
                   + (real j / real_of_int fadesize) * cur ! j ! ch
               \<and> min (prev_audio ! (nat (blocksize - fadesize) + j) ! ch) (cur ! j ! ch)
                   \<le> blended ! (nat (blocksize - fadesize) + j) ! ch
               \<and> blended ! (nat (blocksize - fadesize) + j) ! ch
                   \<le> max (prev_audio ! (nat (blocksize - fadesize) + j) ! ch) (cur ! j ! ch))))
       \<and> (\<forall>j1 j2. j1 < j2 \<and> j2 < nat fadesize \<longrightarrow>
             real j1 * (1 / real_of_int fadesize) < real j2 * (1 / real_of_int fadesize))
       \<and> phase_step4 meter t g blocksize fadesize block_count audio 0 (new0, held0) =
           Inr (new0,
                correct4 t g (meter (block_slice blocksize fadesize block_count 0 audio))
                  (block_slice blocksize fadesize block_count 0 audio))
       \<and> phase_step2 meter t blocksize fadesize block_count audio 0 (new0, held0) =
           (case correct2 t (meter (block_slice blocksize fadesize block_count 0 audio))
                   (block_slice blocksize fadesize block_count 0 audio) of
              Inl e \<Rightarrow> Inl e
            | Inr sub_audio \<Rightarrow> Inr (new0, sub_audio))"
proof (intro conjI)
  show "\<forall>j1 j2. j1 < j2 \<and> j2 < nat fadesize \<longrightarrow>
             real j1 * (1 / real_of_int fadesize) < real j2 * (1 / real_of_int fadesize)"
    using blend_ramp_increasing by blast
qed (rule phase_loop4_blend[OF assms] impI phase_loop2_blend[OF assms] phase_step4_first
      phase_step2_first | assumption)+

text \<open>
  Claim C7 on a run of both scripts: eight stereo frames, division 4 at sample rate 1
  (blocks of four frames, a fade of two), target -20, maximum gain 20. The first block
  is raised to \<open>1/10\<close>, the second lowered to \<open>1/1000\<close> and \<open>1/10\<close>; the last frame of the
  first block becomes the mean \<open>101/2000\<close> of \<open>1/10\<close> and \<open>1/1000\<close>, and that is the fourth
  frame both programs put out.
\<close>

theorem crossfade_linear_blend_witness:
  "(0::int) < blocksize_of 4 1
   \<and> 0 \<le> fadesize_of (blocksize_of 4 1) (6 / 10)
   \<and> fadesize_of (blocksize_of 4 1) (6 / 10) \<le> blocksize_of 4 1
   \<and> blocksize_of 4 1 = 4 \<and> fadesize_of (blocksize_of 4 1) (6 / 10) = 2
   \<and> py_int_quot
        (int (length [[1 / 100, 1 / 100], [1 / 100, 1 / 100], [1 / 100, 1 / 100],
                      [1 / 100, 1 / 100], [1, 1], [1, 1], [1, 1], [1, 1 :: real]])) 4 = Inr 2
   \<and> (0::nat) < 1 \<and> int 1 < 2
   \<and> (\<exists>new_audio prev_audio cur blended.
         for_loop (phase_step4 step_meter (- 20) 20 4 2 2
             [[1 / 100, 1 / 100], [1 / 100, 1 / 100], [1 / 100, 1 / 100], [1 / 100, 1 / 100],
              [1, 1], [1, 1], [1, 1], [1, 1]]) [0..<1] ([], [])
           = Inr (new_audio, prev_audio)
       \<and> prev_audio = [[1 / 10, 1 / 10], [1 / 10, 1 / 10], [1 / 10, 1 / 10], [1 / 10, 1 / 10]]
       \<and> cur = [[1 / 1000, 1 / 1000], [1 / 1000, 1 / 1000],
                [1 / 10, 1 / 10], [1 / 10, 1 / 10], [1 / 10, 1 / 10], [1 / 10, 1 / 10]]
       \<and> phase_step4 step_meter (- 20) 20 4 2 2
             [[1 / 100, 1 / 100], [1 / 100, 1 / 100], [1 / 100, 1 / 100], [1 / 100, 1 / 100],
              [1, 1], [1, 1], [1, 1], [1, 1]] 1 (new_audio, prev_audio)
           = Inr (new_audio @ blended, drop (nat 2) cur)
       \<and> blended ! (nat (4 - 2) + 1) ! 0
           = (1 - real 1 / real_of_int 2) * (1 / 10) + (real 1 / real_of_int 2) * (1 / 1000)
       \<and> min (1 / 10) (1 / 1000) \<le> blended ! (nat (4 - 2) + 1) ! 0
       \<and> blended ! (nat (4 - 2) + 1) ! 0 \<le> max (1 / 10) (1 / 1000)
       \<and> blended = [[1 / 10, 1 / 10], [1 / 10, 1 / 10], [1 / 10, 1 / 10],
                    [101 / 2000, 101 / 2000]])
   \<and> step_meter (block_slice 4 2 2 0
        [[1 / 100, 1 / 100], [1 / 100, 1 / 100], [1 / 100, 1 / 100], [1 / 100, 1 / 100],
         [1, 1], [1, 1], [1, 1], [1, 1]]) \<noteq> NegInf
   \<and> step_meter (block_slice 4 2 2 1
        [[1 / 100, 1 / 100], [1 / 100, 1 / 100], [1 / 100, 1 / 100], [1 / 100, 1 / 100],
         [1, 1], [1, 1], [1, 1], [1, 1]]) \<noteq> NegInf
   \<and> (\<exists>new_audio prev_audio cur blended.
         for_loop (phase_step2 step_meter (- 20) 4 2 2
             [[1 / 100, 1 / 100], [1 / 100, 1 / 100], [1 / 100, 1 / 100], [1 / 100, 1 / 100],
              [1, 1], [1, 1], [1, 1], [1, 1]]) [0..<1] ([], [])
           = Inr (new_audio, prev_audio)
       \<and> prev_audio = [[1 / 10, 1 / 10], [1 / 10, 1 / 10], [1 / 10, 1 / 10], [1 / 10, 1 / 10]]
       \<and> cur = [[1 / 1000, 1 / 1000], [1 / 1000, 1 / 1000],
                [1 / 10, 1 / 10], [1 / 10, 1 / 10], [1 / 10, 1 / 10], [1 / 10, 1 / 10]]
       \<and> phase_step2 step_meter (- 20) 4 2 2
             [[1 / 100, 1 / 100], [1 / 100, 1 / 100], [1 / 100, 1 / 100], [1 / 100, 1 / 100],
              [1, 1], [1, 1], [1, 1], [1, 1]] 1 (new_audio, prev_audio)
           = Inr (new_audio @ blended, drop (nat 2) cur)
       \<and> blended ! (nat (4 - 2) + 1) ! 0
           = (1 - real 1 / real_of_int 2) * (1 / 10) + (real 1 / real_of_int 2) * (1 / 1000))
   \<and> dyn_adapt4_stitch step_meter (- 20) 4 (6 / 10) 20 True 1
        [[1 / 100, 1 / 100], [1 / 100, 1 / 100], [1 / 100, 1 / 100], [1 / 100, 1 / 100],
         [1, 1], [1, 1], [1, 1], [1, 1]]
       = Inr [[1 / 10, 1 / 10], [1 / 10, 1 / 10], [1 / 10, 1 / 10], [101 / 2000, 101 / 2000],
              [1 / 10, 1 / 10], [1 / 10, 1 / 10], [1 / 10, 1 / 10], [1 / 10, 1 / 10]]
   \<and> dyn_adapt2_stitch step_meter (- 20) 4 1
        [[1 / 100, 1 / 100], [1 / 100, 1 / 100], [1 / 100, 1 / 100], [1 / 100, 1 / 100],
         [1, 1], [1, 1], [1, 1], [1, 1]]
       = Inr [[1 / 10, 1 / 10], [1 / 10, 1 / 10], [1 / 10, 1 / 10], [101 / 2000, 101 / 2000],
              [1 / 10, 1 / 10], [1 / 10, 1 / 10], [1 / 10, 1 / 10], [1 / 10, 1 / 10]]"
proof -
  let ?a = "[[1 / 100, 1 / 100], [1 / 100, 1 / 100], [1 / 100, 1 / 100], [1 / 100, 1 / 100],
            [1, 1], [1, 1], [1, 1], [1, 1 :: real]]"
  have sizes: "blocksize_of 4 1 = 4" "fadesize_of (blocksize_of 4 1) (6 / 10) = 2"
    by (simp_all add: blocksize_of_def fadesize_of_def py_int_def)
  have h: "(0::int) < 4" "(0::int) \<le> 2" "(2::int) \<le> 4"
    "py_int_quot (int (length ?a)) 4 = Inr 2" "(0::nat) < 1" "int 1 < 2"
    by (simp_all add: py_int_quot_def py_int_def)
  note T = crossfade_linear_blend[OF h, of step_meter "- 20" 20 "[]", THEN conjunct1]
  from T obtain new_audio prev_audio cur blended where f:
    "for_loop (phase_step4 step_meter (- 20) 20 4 2 2 ?a) [0..<1] ([], [])
       = Inr (new_audio, prev_audio)"
    "prev_audio = drop (if (1::nat) = 1 then 0 else nat 2)
       (correct4 (- 20) 20 (step_meter (block_slice 4 2 2 (1 - 1) ?a)) (block_slice 4 2 2 (1 - 1) ?a))"
    "cur = correct4 (- 20) 20 (step_meter (block_slice 4 2 2 1 ?a)) (block_slice 4 2 2 1 ?a)"
    "phase_step4 step_meter (- 20) 20 4 2 2 ?a 1 (new_audio, prev_audio)
       = Inr (new_audio @ blended, drop (nat 2) cur)"
    "\<forall>j < nat 2. \<forall>ch.
        ch < length (prev_audio ! (nat (4 - 2) + j)) \<and> ch < length (cur ! j) \<longrightarrow>
          blended ! (nat (4 - 2) + j) ! ch =
            (1 - real j / real_of_int 2) * prev_audio ! (nat (4 - 2) + j) ! ch
            + (real j / real_of_int 2) * cur ! j ! ch
        \<and> min (prev_audio ! (nat (4 - 2) + j) ! ch) (cur ! j ! ch)
            \<le> blended ! (nat (4 - 2) + j) ! ch
        \<and> blended ! (nat (4 - 2) + j) ! ch
            \<le> max (prev_audio ! (nat (4 - 2) + j) ! ch) (cur ! j ! ch)"
    by (elim exE conjE) (rule that)
  have pv: "prev_audio = [[1 / 10, 1 / 10], [1 / 10, 1 / 10], [1 / 10, 1 / 10], [1 / 10, 1 / 10]]"
    unfolding f(2) by (simp add: run_defs)
  have cv: "cur = [[1 / 1000, 1 / 1000], [1 / 1000, 1 / 1000],
                [1 / 10, 1 / 10], [1 / 10, 1 / 10], [1 / 10, 1 / 10], [1 / 10, 1 / 10]]"
    unfolding f(3) by (simp add: run_defs)
  have "for_loop (phase_step4 step_meter (- 20) 20 4 2 2 ?a) [0..<1] ([], [])
       = Inr ([], [[1 / 10, 1 / 10], [1 / 10, 1 / 10], [1 / 10, 1 / 10], [1 / 10, 1 / 10]])"
    by (simp add: run_defs)
  with f(1) have nv: "new_audio = []" by simp
  have "phase_step4 step_meter (- 20) 20 4 2 2 ?a 1
      ([], [[1 / 10, 1 / 10], [1 / 10, 1 / 10], [1 / 10, 1 / 10], [1 / 10, 1 / 10]])
     = Inr ([[1 / 10, 1 / 10], [1 / 10, 1 / 10], [1 / 10, 1 / 10], [101 / 2000, 101 / 2000]],
            [[1 / 10, 1 / 10], [1 / 10, 1 / 10], [1 / 10, 1 / 10], [1 / 10, 1 / 10]])"
    by (simp add: run_defs)
  with f(4) have bv: "blended = [[1 / 10, 1 / 10], [1 / 10, 1 / 10], [1 / 10, 1 / 10],
                    [101 / 2000, 101 / 2000]]"
    unfolding nv pv by simp
  have j1: "blended ! (nat (4 - 2) + 1) ! 0
           = (1 - real 1 / real_of_int 2) * (1 / 10) + (real 1 / real_of_int 2) * (1 / 1000)"
     "min (1 / 10) (1 / 1000) \<le> blended ! (nat (4 - 2) + 1) ! 0"
     "blended ! (nat (4 - 2) + 1) ! 0 \<le> max (1 / 10) (1 / 1000)"
    using f(5)[rule_format, of 1 0] unfolding pv cv by simp_all
  have d4: "dyn_adapt4_stitch step_meter (- 20) 4 (6 / 10) 20 True 1 ?a
       = Inr [[1 / 10, 1 / 10], [1 / 10, 1 / 10], [1 / 10, 1 / 10], [101 / 2000, 101 / 2000],
              [1 / 10, 1 / 10], [1 / 10, 1 / 10], [1 / 10, 1 / 10], [1 / 10, 1 / 10]]"
    by (simp add: run_defs)
  have d2: "dyn_adapt2_stitch step_meter (- 20) 4 1 ?a
       = Inr [[1 / 10, 1 / 10], [1 / 10, 1 / 10], [1 / 10, 1 / 10], [101 / 2000, 101 / 2000],
              [1 / 10, 1 / 10], [1 / 10, 1 / 10], [1 / 10, 1 / 10], [1 / 10, 1 / 10]]"
    by (simp add: run_defs run2_defs)
  have m0: "step_meter (block_slice 4 2 2 0 ?a) \<noteq> NegInf"
    and m1: "step_meter (block_slice 4 2 2 1 ?a) \<noteq> NegInf"
    by (simp_all add: run_defs)
  have fin: "\<forall>k \<le> 1. step_meter (block_slice 4 2 2 k ?a) \<noteq> NegInf"
  proof (intro allI impI)
    fix k :: nat assume "k \<le> 1"
    then have "k = 0 \<or> k = 1" by auto
    then show "step_meter (block_slice 4 2 2 k ?a) \<noteq> NegInf" using m0 m1 by auto
  qed
  note T2 = crossfade_linear_blend[OF h, of step_meter "- 20", THEN conjunct2, THEN conjunct1,
      THEN mp, OF fin]
  from T2 obtain new2 prev2 held2 cur2 blended2 where f2:
    "for_loop (phase_step2 step_meter (- 20) 4 2 2 ?a) [0..<1] ([], []) = Inr (new2, prev2)"
    "correct2 (- 20) (step_meter (block_slice 4 2 2 (1 - 1) ?a)) (block_slice 4 2 2 (1 - 1) ?a)
       = Inr held2"
    "prev2 = drop (if (1::nat) = 1 then 0 else nat 2) held2"
    "correct2 (- 20) (step_meter (block_slice 4 2 2 1 ?a)) (block_slice 4 2 2 1 ?a) = Inr cur2"
    "phase_step2 step_meter (- 20) 4 2 2 ?a 1 (new2, prev2)
       = Inr (new2 @ blended2, drop (nat 2) cur2)"
    "\<forall>j < nat 2. \<forall>ch.
        ch < length (prev2 ! (nat (4 - 2) + j)) \<and> ch < length (cur2 ! j) \<longrightarrow>
          blended2 ! (nat (4 - 2) + j) ! ch =
            (1 - real j / real_of_int 2) * prev2 ! (nat (4 - 2) + j) ! ch
            + (real j / real_of_int 2) * cur2 ! j ! ch
        \<and> min (prev2 ! (nat (4 - 2) + j) ! ch) (cur2 ! j ! ch)
            \<le> blended2 ! (nat (4 - 2) + j) ! ch
        \<and> blended2 ! (nat (4 - 2) + j) ! ch
            \<le> max (prev2 ! (nat (4 - 2) + j) ! ch) (cur2 ! j ! ch)"
    by (elim exE conjE) (rule that)
  have "correct2 (- 20) (step_meter (block_slice 4 2 2 (1 - 1) ?a)) (block_slice 4 2 2 (1 - 1) ?a)
      = Inr [[1 / 10, 1 / 10], [1 / 10, 1 / 10], [1 / 10, 1 / 10], [1 / 10, 1 / 10]]"
    by (simp add: run_defs run2_defs)
  with f2(2,3) have pv2: "prev2 = [[1 / 10, 1 / 10], [1 / 10, 1 / 10], [1 / 10, 1 / 10], [1 / 10, 1 / 10]]"
    by simp
  have "correct2 (- 20) (step_meter (block_slice 4 2 2 1 ?a)) (block_slice 4 2 2 1 ?a)
      = Inr [[1 / 1000, 1 / 1000], [1 / 1000, 1 / 1000],
                [1 / 10, 1 / 10], [1 / 10, 1 / 10], [1 / 10, 1 / 10], [1 / 10, 1 / 10]]"
    by (simp add: run_defs run2_defs)
  with f2(4) have cv2: "cur2 = [[1 / 1000, 1 / 1000], [1 / 1000, 1 / 1000],
                [1 / 10, 1 / 10], [1 / 10, 1 / 10], [1 / 10, 1 / 10], [1 / 10, 1 / 10]]"
    by simp
  have j2: "blended2 ! (nat (4 - 2) + 1) ! 0
           = (1 - real 1 / real_of_int 2) * (1 / 10) + (real 1 / real_of_int 2) * (1 / 1000)"
    using f2(6)[rule_format, of 1 0] unfolding pv2 cv2 by simp
  have s1: "(0::int) < blocksize_of 4 1" "0 \<le> fadesize_of (blocksize_of 4 1) (6 / 10)"
    "fadesize_of (blocksize_of 4 1) (6 / 10) \<le> blocksize_of 4 1"
    by (simp_all add: blocksize_of_def fadesize_of_def py_int_def)
  show ?thesis
  proof (intro conjI)
    show "\<exists>new_audio prev_audio cur blended.
         for_loop (phase_step2 step_meter (- 20) 4 2 2 ?a) [0..<1] ([], [])
           = Inr (new_audio, prev_audio)
       \<and> prev_audio = [[1 / 10, 1 / 10], [1 / 10, 1 / 10], [1 / 10, 1 / 10], [1 / 10, 1 / 10]]
       \<and> cur = [[1 / 1000, 1 / 1000], [1 / 1000, 1 / 1000],
                [1 / 10, 1 / 10], [1 / 10, 1 / 10], [1 / 10, 1 / 10], [1 / 10, 1 / 10]]
       \<and> phase_step2 step_meter (- 20) 4 2 2 ?a 1 (new_audio, prev_audio)
           = Inr (new_audio @ blended, drop (nat 2) cur)
       \<and> blended ! (nat (4 - 2) + 1) ! 0
           = (1 - real 1 / real_of_int 2) * (1 / 10) + (real 1 / real_of_int 2) * (1 / 1000)"
      by (intro conjI exI[of _ new2] exI[of _ prev2] exI[of _ cur2] exI[of _ blended2])
        (rule f2(1) pv2 cv2 f2(5) j2)+
    show "\<exists>new_audio prev_audio cur blended.
         for_loop (phase_step4 step_meter (- 20) 20 4 2 2 ?a) [0..<1] ([], [])
           = Inr (new_audio, prev_audio)
       \<and> prev_audio = [[1 / 10, 1 / 10], [1 / 10, 1 / 10], [1 / 10, 1 / 10], [1 / 10, 1 / 10]]
       \<and> cur = [[1 / 1000, 1 / 1000], [1 / 1000, 1 / 1000],
                [1 / 10, 1 / 10], [1 / 10, 1 / 10], [1 / 10, 1 / 10], [1 / 10, 1 / 10]]
       \<and> phase_step4 step_meter (- 20) 20 4 2 2 ?a 1 (new_audio, prev_audio)
           = Inr (new_audio @ blended, drop (nat 2) cur)
       \<and> blended ! (nat (4 - 2) + 1) ! 0
           = (1 - real 1 / real_of_int 2) * (1 / 10) + (real 1 / real_of_int 2) * (1 / 1000)
       \<and> min (1 / 10) (1 / 1000) \<le> blended ! (nat (4 - 2) + 1) ! 0
       \<and> blended ! (nat (4 - 2) + 1) ! 0 \<le> max (1 / 10) (1 / 1000)
       \<and> blended = [[1 / 10, 1 / 10], [1 / 10, 1 / 10], [1 / 10, 1 / 10],
                    [101 / 2000, 101 / 2000]]"
      by (intro conjI exI[of _ new_audio] exI[of _ prev_audio] exI[of _ cur] exI[of _ blended])
        (rule f(1) pv cv f(4) j1 bv)+
  qed (rule s1 sizes h(4) h(5) h(6) m0 m1 d4 d2)+
qed

section \<open>Command line values\<close>

text \<open>
  Whatever the flags, the values the refined variant works with are an even division, a
  crossfade ratio strictly between 0 and 1, a negative target and a maximum gain that
  is not negative.
\<close>

lemma args_validated:
  "division_of a mod 2 = 0 \<and> 0 < xfade_of a \<and> xfade_of a < 1
   \<and> final_loudness_of a < 0 \<and> 0 \<le> max_gain_of a"
proof -
  have "division_of a mod 2 = 0"
    by (simp add: division_of_def) presburger
  then show ?thesis
    by (simp add: xfade_of_def final_loudness_of_def max_gain_of_def default_crossfade_def
        default_loudness_def)
qed

text \<open>
  So a single pass of the refined variant, run from the command line values with a
  positive division, keeps the length of every buffer that holds a whole block,
  whatever the other flags are.
\<close>

lemma dyn_adapt4_single_pass_length:
  assumes "0 < arg_division a" "0 < samplerate" "arg_nophase2 a"
    and "nat (blocksize_of (division_of a) samplerate) \<le> length audio"
  shows "\<exists>out. dyn_adapt4 meter a samplerate audio = Inr out \<and> length out = length audio"
proof -
  define bs where "bs = blocksize_of (division_of a) samplerate"
  define fs where "fs = fadesize_of bs (xfade_of a)"
  have "0 < division_of a" using assms(1) by (simp add: division_of_def)
  then have bs0: "0 < bs" using assms(2) by (simp add: bs_def blocksize_of_def)
  have x: "0 \<le> xfade_of a" "xfade_of a \<le> 1" using args_validated[of a] by simp_all
  have fsb: "0 \<le> fs" "fs \<le> bs"
    using fadesize_of_bounds[OF bs0 x] by (simp_all add: fs_def)
  have N: "nat bs \<le> length audio" using assms(4) by (simp add: bs_def)
  from phase_pass4_length[OF bs0 fsb N, of meter "real_of_int (final_loudness_of a)"
      "max_gain_of a" "[]"]
  obtain new_audio held where
    "phase_pass4 meter (real_of_int (final_loudness_of a)) (max_gain_of a) bs fs [] audio =
       Inr (new_audio, held)" "length new_audio = length audio"
    by blast
  then show ?thesis
    using assms(3) by (simp add: dyn_adapt4_def dyn_adapt4_stitch_single bs_def fs_def)
qed

end
